theory Spec2Isabelle
  imports Main
begin

section \<open>Data model\<close>

text \<open>
  The entities of \<^verbatim>\<open>types/review\<close> and \<^verbatim>\<open>types/booking\<close> as the hooks read them.
  The JavaScript field \<^verbatim>\<open>id\<close> is written \<open>review_id\<close>, \<open>booking_id\<close> and \<open>user_id\<close>
  (\<open>id\<close> is the identity function of HOL), and the text of a review, JavaScript field
  \<^verbatim>\<open>review\<close>, is \<open>review_text\<close>. A booking status is the string the code compares it
  with (\<^verbatim>\<open>'pending-review'\<close>, \<^verbatim>\<open>'reviewed'\<close>, and whatever else the type admits).
\<close>

record user_ref =
  user_id :: string
  name :: string
  photo :: string

record review =
  review_id :: string
  review_text :: string
  rating :: int
  createdAt :: string
  updatedAt :: "string option"
  tour :: string
  user :: user_ref

record CreateReviewData =
  data_tour :: string
  data_rating :: int
  data_review :: string

record UpdateReviewData =
  new_rating :: "int option"
  new_review :: "string option"
  new_updatedAt :: "string option"

record booking =
  booking_id :: string
  tourId :: string
  status :: string

text \<open>
  What the hooks return: \<^verbatim>\<open>{ success: boolean, error?: string, review?: Review }\<close>.
\<close>

record result =
  success :: bool
  error :: "string option"
  review :: "review option"

text \<open>
  What a service can throw. The hooks only test \<^verbatim>\<open>instanceof ReviewsError\<close> and
  \<^verbatim>\<open>instanceof BookingsError\<close> and read \<^verbatim>\<open>message\<close>; \<open>OtherError\<close> is any other
  thrown value.
\<close>

datatype exn = ReviewsError string | BookingsError string | OtherError

section \<open>The Redux store\<close>

text \<open>
  The two slices of the store that the hooks select (\<^verbatim>\<open>state.reviews\<close> and
  \<^verbatim>\<open>state.bookings\<close>). \<^verbatim>\<open>tourReviews\<close> is an object indexed by tour id.
\<close>

record reviews_state =
  tourReviews :: "string \<rightharpoonup> review list"
  userReviews :: "review list"
  currentReview :: "review option"
  reviews_isLoading :: bool
  reviews_isSubmitting :: bool
  reviews_error :: "string option"

record bookings_state =
  userBookings :: "booking list"
  currentBooking :: "booking option"
  bookings_isLoading :: bool
  bookings_isSubmitting :: bool
  bookings_error :: "string option"

text \<open>
  The actions the two hooks dispatch. \<^verbatim>\<open>setLoading\<close>, \<^verbatim>\<open>setSubmitting\<close>,
  \<^verbatim>\<open>setError\<close> and \<^verbatim>\<open>clearError\<close> exist in both slices, so they carry the name of
  their slice, as their Redux action types do.
\<close>

datatype action =
    reviews_setLoading bool
  | reviews_setSubmitting bool
  | reviews_setError string
  | reviews_clearError
  | setTourReviews string "review list"
  | setUserReviews "review list"
  | addUserReview review
  | updateUserReview review
  | removeUserReview string
  | setCurrentReview review
  | clearCurrentReview
  | clearTourReviews string
  | bookings_setLoading bool
  | bookings_setSubmitting bool
  | bookings_setError string
  | bookings_clearError
  | setUserBookings "booking list"
  | updateUserBookingStatus string string
  | setCurrentBooking booking
  | clearCurrentBooking

text \<open>
  Modelled from the spec: the reducers of \<^verbatim>\<open>store/slices/reviewsSlice\<close>, which is not
  among the source files. The spec describes the Reviews State Cache as reviews by tour
  id plus the current user's own reviews, changed only through these accessors; each
  reducer does what its name says. \<^verbatim>\<open>addUserReview\<close> puts the review into the user's
  list, \<^verbatim>\<open>updateUserReview\<close> replaces the review of the same id,
  \<^verbatim>\<open>removeUserReview\<close> drops the review of that id, \<^verbatim>\<open>clearTourReviews\<close> removes the
  entry of the tour. Actions of the other slice leave the state as it is.
\<close>

fun reviewsReducer :: "reviews_state \<Rightarrow> action \<Rightarrow> reviews_state" where
  "reviewsReducer s (reviews_setLoading b) = s\<lparr>reviews_isLoading := b\<rparr>"
| "reviewsReducer s (reviews_setSubmitting b) = s\<lparr>reviews_isSubmitting := b\<rparr>"
| "reviewsReducer s (reviews_setError m) = s\<lparr>reviews_error := Some m\<rparr>"
| "reviewsReducer s reviews_clearError = s\<lparr>reviews_error := None\<rparr>"
| "reviewsReducer s (setTourReviews t rs) = s\<lparr>tourReviews := (tourReviews s)(t \<mapsto> rs)\<rparr>"
| "reviewsReducer s (setUserReviews rs) = s\<lparr>userReviews := rs\<rparr>"
| "reviewsReducer s (addUserReview r) = s\<lparr>userReviews := r # userReviews s\<rparr>"
| "reviewsReducer s (updateUserReview r) =
     s\<lparr>userReviews := map (\<lambda>x. if review_id x = review_id r then r else x) (userReviews s)\<rparr>"
| "reviewsReducer s (removeUserReview i) =
     s\<lparr>userReviews := filter (\<lambda>x. review_id x \<noteq> i) (userReviews s)\<rparr>"
| "reviewsReducer s (setCurrentReview r) = s\<lparr>currentReview := Some r\<rparr>"
| "reviewsReducer s clearCurrentReview = s\<lparr>currentReview := None\<rparr>"
| "reviewsReducer s (clearTourReviews t) = s\<lparr>tourReviews := (tourReviews s)(t := None)\<rparr>"
| "reviewsReducer s (bookings_setLoading b) = s"
| "reviewsReducer s (bookings_setSubmitting b) = s"
| "reviewsReducer s (bookings_setError m) = s"
| "reviewsReducer s bookings_clearError = s"
| "reviewsReducer s (setUserBookings bs) = s"
| "reviewsReducer s (updateUserBookingStatus i st) = s"
| "reviewsReducer s (setCurrentBooking b) = s"
| "reviewsReducer s clearCurrentBooking = s"

text \<open>
  Modelled from the spec: the reducers of \<^verbatim>\<open>store/slices/bookingsSlice\<close>, which is not
  among the source files. The spec describes the Bookings State Cache as the current
  user's bookings keyed by booking id, and the local status flip as setting the status
  of the booking found: \<^verbatim>\<open>updateUserBookingStatus\<close> sets the status of the booking with
  the given id and touches no other booking. Actions of the other slice leave the state
  as it is.
\<close>

fun bookingsReducer :: "bookings_state \<Rightarrow> action \<Rightarrow> bookings_state" where
  "bookingsReducer s (bookings_setLoading b) = s\<lparr>bookings_isLoading := b\<rparr>"
| "bookingsReducer s (bookings_setSubmitting b) = s\<lparr>bookings_isSubmitting := b\<rparr>"
| "bookingsReducer s (bookings_setError m) = s\<lparr>bookings_error := Some m\<rparr>"
| "bookingsReducer s bookings_clearError = s\<lparr>bookings_error := None\<rparr>"
| "bookingsReducer s (setUserBookings bs) = s\<lparr>userBookings := bs\<rparr>"
| "bookingsReducer s (updateUserBookingStatus i st) =
     s\<lparr>userBookings := map (\<lambda>b. if booking_id b = i then b\<lparr>status := st\<rparr> else b) (userBookings s)\<rparr>"
| "bookingsReducer s (setCurrentBooking b) = s\<lparr>currentBooking := Some b\<rparr>"
| "bookingsReducer s clearCurrentBooking = s\<lparr>currentBooking := None\<rparr>"
| "bookingsReducer s (reviews_setLoading b) = s"
| "bookingsReducer s (reviews_setSubmitting b) = s"
| "bookingsReducer s (reviews_setError m) = s"
| "bookingsReducer s reviews_clearError = s"
| "bookingsReducer s (setTourReviews t rs) = s"
| "bookingsReducer s (setUserReviews rs) = s"
| "bookingsReducer s (addUserReview r) = s"
| "bookingsReducer s (updateUserReview r) = s"
| "bookingsReducer s (removeUserReview i) = s"
| "bookingsReducer s (setCurrentReview r) = s"
| "bookingsReducer s clearCurrentReview = s"
| "bookingsReducer s (clearTourReviews t) = s"

section \<open>The world: store, remote store, and what was issued\<close>

text \<open>
  Everything an operation of the hooks can change: the two slices of the local store; the
  status of each booking in the remote store, by booking id; and two logs, the actions
  dispatched to the store and the service calls started, each in order. The logs make
  "no write was issued" and "no remote call was attempted" statable.
\<close>

datatype remote_call =
    call_fetchTourReviews string
  | call_fetchUserReviews
  | call_createReview CreateReviewData
  | call_updateReview string UpdateReviewData
  | call_deleteReview string
  | call_fetchUserBookings
  | call_updateBookingStatus string string

record world =
  reviews :: reviews_state
  bookings :: bookings_state
  dispatched :: "action list"
  remote_bookings :: "string \<rightharpoonup> string"
  remote_calls :: "remote_call list"

definition dispatch :: "action \<Rightarrow> world \<Rightarrow> world" where
  "dispatch a w =
     w\<lparr>reviews := reviewsReducer (reviews w) a,
       bookings := bookingsReducer (bookings w) a,
       dispatched := dispatched w @ [a]\<rparr>"

fun is_booking_status_write :: "action \<Rightarrow> bool" where
  "is_booking_status_write (updateUserBookingStatus i st) = True"
| "is_booking_status_write a = False"

fun is_booking_status_call :: "remote_call \<Rightarrow> bool" where
  "is_booking_status_call (call_updateBookingStatus i st) = True"
| "is_booking_status_call c = False"

text \<open>
  The booking-status writes issued so far: to the local cache, and to the remote store.
  Both logs only grow, so an operation issues no such write exactly when these lists
  are the same before and after it.
\<close>

definition local_status_writes :: "world \<Rightarrow> action list" where
  "local_status_writes w = filter is_booking_status_write (dispatched w)"

definition remote_status_writes :: "world \<Rightarrow> remote_call list" where
  "remote_status_writes w = filter is_booking_status_call (remote_calls w)"

text \<open>
  The writes to the reviews themselves: the create, update and delete calls sent to the
  remote review store, and the actions that change the user's reviews in the local cache.
  A rollback of a review would show as one more entry in these lists.
\<close>

fun is_review_call :: "remote_call \<Rightarrow> bool" where
  "is_review_call (call_createReview d) = True"
| "is_review_call (call_updateReview i u) = True"
| "is_review_call (call_deleteReview i) = True"
| "is_review_call c = False"

fun is_user_reviews_write :: "action \<Rightarrow> bool" where
  "is_user_reviews_write (setUserReviews rs) = True"
| "is_user_reviews_write (addUserReview r) = True"
| "is_user_reviews_write (updateUserReview r) = True"
| "is_user_reviews_write (removeUserReview i) = True"
| "is_user_reviews_write a = False"

definition remote_review_writes :: "world \<Rightarrow> remote_call list" where
  "remote_review_writes w = filter is_review_call (remote_calls w)"

definition local_review_writes :: "world \<Rightarrow> action list" where
  "local_review_writes w = filter is_user_reviews_write (dispatched w)"

section \<open>The remote side\<close>

text \<open>
  The transport and the remote store are external. \<open>net\<close> fixes what they answer to each
  request an operation can make: for the review endpoints, the failure as
  \<^verbatim>\<open>handleApiError\<close> reports it (status code and message) or the entity returned; for
  the booking endpoints, the exception thrown or the value returned. In mock mode the
  review service answers without the transport; those answers are among the ones \<open>net\<close>
  ranges over.
\<close>

record api_error =
  statusCode :: "nat option"
  message :: string

record net =
  get_tour_reviews :: "string \<Rightarrow> api_error + review list"
  get_my_reviews :: "api_error + review list"
  post_review :: "CreateReviewData \<Rightarrow> api_error + review"
  patch_review :: "string \<Rightarrow> UpdateReviewData \<Rightarrow> api_error + review"
  delete_review :: "string \<Rightarrow> api_error option"
  get_my_bookings :: "exn + booking list"
  patch_booking_status :: "string \<Rightarrow> string \<Rightarrow> exn option"

subsection \<open>reviewsService\<close>

definition transformReviewsError :: "api_error \<Rightarrow> exn" where
  "transformReviewsError baseError =
     (if statusCode baseError = Some 409
      then ReviewsError ''You have already reviewed this tour''
      else ReviewsError (message baseError))"

definition called :: "remote_call \<Rightarrow> world \<Rightarrow> world" where
  "called c w = w\<lparr>remote_calls := remote_calls w @ [c]\<rparr>"

definition reviewsService_fetchTourReviews ::
    "net \<Rightarrow> string \<Rightarrow> world \<Rightarrow> (exn + review list) \<times> world" where
  "reviewsService_fetchTourReviews n t w =
     (case get_tour_reviews n t of
        Inl e \<Rightarrow> (Inl (transformReviewsError e), called (call_fetchTourReviews t) w)
      | Inr rs \<Rightarrow> (Inr rs, called (call_fetchTourReviews t) w))"

definition reviewsService_fetchUserReviews ::
    "net \<Rightarrow> world \<Rightarrow> (exn + review list) \<times> world" where
  "reviewsService_fetchUserReviews n w =
     (case get_my_reviews n of
        Inl e \<Rightarrow> (Inl (transformReviewsError e), called call_fetchUserReviews w)
      | Inr rs \<Rightarrow> (Inr rs, called call_fetchUserReviews w))"

definition reviewsService_createReview ::
    "net \<Rightarrow> CreateReviewData \<Rightarrow> world \<Rightarrow> (exn + review) \<times> world" where
  "reviewsService_createReview n reviewData w =
     (case post_review n reviewData of
        Inl e \<Rightarrow> (Inl (transformReviewsError e), called (call_createReview reviewData) w)
      | Inr r \<Rightarrow> (Inr r, called (call_createReview reviewData) w))"

definition reviewsService_updateReview ::
    "net \<Rightarrow> string \<Rightarrow> UpdateReviewData \<Rightarrow> world \<Rightarrow> (exn + review) \<times> world" where
  "reviewsService_updateReview n reviewId updateData w =
     (case patch_review n reviewId updateData of
        Inl e \<Rightarrow> (Inl (transformReviewsError e), called (call_updateReview reviewId updateData) w)
      | Inr r \<Rightarrow> (Inr r, called (call_updateReview reviewId updateData) w))"

definition reviewsService_deleteReview ::
    "net \<Rightarrow> string \<Rightarrow> world \<Rightarrow> (exn + unit) \<times> world" where
  "reviewsService_deleteReview n reviewId w =
     (case delete_review n reviewId of
        Some e \<Rightarrow> (Inl (transformReviewsError e), called (call_deleteReview reviewId) w)
      | None \<Rightarrow> (Inr (), called (call_deleteReview reviewId) w))"

subsection \<open>bookingsService\<close>

text \<open>
  Modelled from the spec: \<^verbatim>\<open>services/bookingsService\<close>, which is not among the source
  files. \<^verbatim>\<open>updateBookingStatus(bookingId, status)\<close> returns nothing on success and fails
  when the transport or the remote store rejects the request, or when the remote store has
  no booking of that id; the remote status changes only on success.
  \<^verbatim>\<open>fetchUserBookings()\<close> returns the user's bookings or fails.
\<close>

definition bookingsService_updateBookingStatus ::
    "net \<Rightarrow> string \<Rightarrow> string \<Rightarrow> world \<Rightarrow> (exn + unit) \<times> world" where
  "bookingsService_updateBookingStatus n bookingId st w =
     (case patch_booking_status n bookingId st of
        Some e \<Rightarrow> (Inl e, called (call_updateBookingStatus bookingId st) w)
      | None \<Rightarrow>
          (case remote_bookings w bookingId of
             None \<Rightarrow> (Inl (BookingsError ''No booking found with that ID''),
                      called (call_updateBookingStatus bookingId st) w)
           | Some old \<Rightarrow>
               (Inr (), called (call_updateBookingStatus bookingId st)
                          (w\<lparr>remote_bookings := (remote_bookings w)(bookingId \<mapsto> st)\<rparr>))))"

definition bookingsService_fetchUserBookings ::
    "net \<Rightarrow> world \<Rightarrow> (exn + booking list) \<times> world" where
  "bookingsService_fetchUserBookings n w = (get_my_bookings n, called call_fetchUserBookings w)"

text \<open>
  The remote booking-status update of booking \<open>i\<close> to \<open>st\<close> succeeds in \<open>w\<close>: nothing
  rejects it and the remote store knows the booking.
\<close>

definition remote_update_succeeds :: "net \<Rightarrow> string \<Rightarrow> string \<Rightarrow> world \<Rightarrow> bool" where
  "remote_update_succeeds n i st w \<longleftrightarrow>
     patch_booking_status n i st = None \<and> remote_bookings w i \<noteq> None"

section \<open>useReviews\<close>

text \<open>
  A callback of a hook reads the store through the values selected when the component
  rendered (\<^verbatim>\<open>reviewsState\<close>, \<^verbatim>\<open>bookingsState\<close>) and writes it through \<^verbatim>\<open>dispatch\<close>. The
  selected values are parameters of the model, so a read after a dispatch sees what the
  source sees. A caller that runs an operation of a freshly rendered hook on the world
  \<open>w\<close> passes \<open>reviews w\<close> and \<open>bookings w\<close>.
\<close>

definition ok :: result where
  "ok = \<lparr>success = True, error = None, review = None\<rparr>"

definition failed :: "string \<Rightarrow> result" where
  "failed m = \<lparr>success = False, error = Some m, review = None\<rparr>"

text \<open>
  The message of a catch block: \<^verbatim>\<open>error instanceof ReviewsError ? error.message : fallback\<close>,
  and the same with \<^verbatim>\<open>BookingsError\<close> in useBookings.
\<close>

fun reviewsErrorMessage :: "exn \<Rightarrow> string \<Rightarrow> string" where
  "reviewsErrorMessage (ReviewsError m) fallback = m"
| "reviewsErrorMessage e fallback = fallback"

fun bookingsErrorMessage :: "exn \<Rightarrow> string \<Rightarrow> string" where
  "bookingsErrorMessage (BookingsError m) fallback = m"
| "bookingsErrorMessage e fallback = fallback"

definition findBookingByTourId :: "bookings_state \<Rightarrow> string \<Rightarrow> booking option" where
  "findBookingByTourId bookingsState t = find (\<lambda>b. tourId b = t) (userBookings bookingsState)"

definition loadTourReviews ::
    "reviews_state \<Rightarrow> net \<Rightarrow> string \<Rightarrow> world \<Rightarrow> result \<times> world" where
  "loadTourReviews reviewsState n t w =
     (if (case tourReviews reviewsState t of None \<Rightarrow> False | Some rs \<Rightarrow> 0 < length rs)
      then (ok, w)
      else
        (case reviewsService_fetchTourReviews n t
                (dispatch reviews_clearError (dispatch (reviews_setLoading True) w)) of
           (Inr rs, w1) \<Rightarrow>
             (ok, dispatch (reviews_setLoading False) (dispatch (setTourReviews t rs) w1))
         | (Inl e, w1) \<Rightarrow>
             (let errorMessage = reviewsErrorMessage e ''Failed to load reviews. Please try again.''
              in (failed errorMessage,
                  dispatch (reviews_setLoading False) (dispatch (reviews_setError errorMessage) w1)))))"

definition loadUserReviews :: "net \<Rightarrow> world \<Rightarrow> result \<times> world" where
  "loadUserReviews n w =
     (case reviewsService_fetchUserReviews n
             (dispatch reviews_clearError (dispatch (reviews_setLoading True) w)) of
        (Inr rs, w1) \<Rightarrow>
          (ok, dispatch (reviews_setLoading False) (dispatch (setUserReviews rs) w1))
      | (Inl e, w1) \<Rightarrow>
          (let errorMessage = reviewsErrorMessage e ''Failed to load your reviews. Please try again.''
           in (failed errorMessage,
               dispatch (reviews_setLoading False) (dispatch (reviews_setError errorMessage) w1))))"

text \<open>
  The block shared by the three mutations: if the tour's reviews are loaded (the entry
  exists, empty or not), clear the entry and load again.
\<close>

definition refreshLoadedTourReviews ::
    "reviews_state \<Rightarrow> net \<Rightarrow> string \<Rightarrow> world \<Rightarrow> world" where
  "refreshLoadedTourReviews reviewsState n t w =
     (case tourReviews reviewsState t of
        None \<Rightarrow> w
      | Some rs \<Rightarrow> snd (loadTourReviews reviewsState n t (dispatch (clearTourReviews t) w)))"

text \<open>
  The catch block of the three mutations: set the error, clear the submitting flag,
  return the failure.
\<close>

definition submitFailed :: "string \<Rightarrow> world \<Rightarrow> result \<times> world" where
  "submitFailed errorMessage w =
     (failed errorMessage,
      dispatch (reviews_setSubmitting False) (dispatch (reviews_setError errorMessage) w))"

text \<open>
  Step 3 of \<^verbatim>\<open>createReview\<close> and step 4 of \<^verbatim>\<open>deleteReview\<close>: when the booking found for
  the tour has the status \<open>from\<close>, set it to \<open>to\<close> in the local cache, then in the remote
  store; an exception of the remote update is caught and dropped. (Loading the module
  of the service, which the source does in the same inner try, is taken to succeed.)
\<close>

definition coordinateBooking ::
    "bookings_state \<Rightarrow> net \<Rightarrow> string \<Rightarrow> string \<Rightarrow> string \<Rightarrow> world \<Rightarrow> world" where
  "coordinateBooking bookingsState n t from to w =
     (case findBookingByTourId bookingsState t of
        None \<Rightarrow> w
      | Some b \<Rightarrow>
          if status b = from
          then snd (bookingsService_updateBookingStatus n (booking_id b) to
                      (dispatch (updateUserBookingStatus (booking_id b) to) w))
          else w)"

definition createReview ::
    "reviews_state \<Rightarrow> bookings_state \<Rightarrow> net \<Rightarrow> CreateReviewData \<Rightarrow> world \<Rightarrow> result \<times> world" where
  "createReview reviewsState bookingsState n reviewData w =
     (case reviewsService_createReview n reviewData
             (dispatch reviews_clearError (dispatch (reviews_setSubmitting True) w)) of
        (Inl e, w1) \<Rightarrow>
          submitFailed (reviewsErrorMessage e ''Failed to create review. Please try again.'') w1
      | (Inr newReview, w1) \<Rightarrow>
          (let w2 = dispatch (addUserReview newReview) w1;
               w3 = coordinateBooking bookingsState n (data_tour reviewData)
                      ''pending-review'' ''reviewed'' w2;
               w4 = refreshLoadedTourReviews reviewsState n (data_tour reviewData) w3
           in (\<lparr>success = True, error = None, review = Some newReview\<rparr>,
               dispatch (reviews_setSubmitting False) w4)))"

definition updateReview ::
    "reviews_state \<Rightarrow> net \<Rightarrow> string \<Rightarrow> UpdateReviewData \<Rightarrow> world \<Rightarrow> result \<times> world" where
  "updateReview reviewsState n reviewId updateData w =
     (case reviewsService_updateReview n reviewId updateData
             (dispatch reviews_clearError (dispatch (reviews_setSubmitting True) w)) of
        (Inl e, w1) \<Rightarrow>
          submitFailed (reviewsErrorMessage e ''Failed to update review. Please try again.'') w1
      | (Inr updatedReview, w1) \<Rightarrow>
          (let w2 = dispatch (updateUserReview updatedReview) w1;
               w3 = (case currentReview reviewsState of
                       None \<Rightarrow> w2
                     | Some c \<Rightarrow>
                         if review_id c = reviewId
                         then dispatch (setCurrentReview updatedReview) w2 else w2);
               w4 = refreshLoadedTourReviews reviewsState n (tour updatedReview) w3
           in (\<lparr>success = True, error = None, review = Some updatedReview\<rparr>,
               dispatch (reviews_setSubmitting False) w4)))"

definition deleteReview ::
    "reviews_state \<Rightarrow> bookings_state \<Rightarrow> net \<Rightarrow> string \<Rightarrow> world \<Rightarrow> result \<times> world" where
  "deleteReview reviewsState bookingsState n reviewId w =
     (let w0 = dispatch reviews_clearError (dispatch (reviews_setSubmitting True) w)
      in case find (\<lambda>r. review_id r = reviewId) (userReviews reviewsState) of
           None \<Rightarrow>
             submitFailed
               (reviewsErrorMessage (ReviewsError ''Review not found in local state'')
                  ''Failed to delete review. Please try again.'') w0
         | Some reviewToDelete \<Rightarrow>
             (case reviewsService_deleteReview n reviewId w0 of
                (Inl e, w1) \<Rightarrow>
                  submitFailed
                    (reviewsErrorMessage e ''Failed to delete review. Please try again.'') w1
              | (Inr u, w1) \<Rightarrow>
                  (let w2 = dispatch (removeUserReview reviewId) w1;
                       w3 = coordinateBooking bookingsState n (tour reviewToDelete)
                              ''reviewed'' ''pending-review'' w2;
                       w4 = (case currentReview reviewsState of
                               None \<Rightarrow> w3
                             | Some c \<Rightarrow>
                                 if review_id c = reviewId
                                 then dispatch clearCurrentReview w3 else w3);
                       w5 = refreshLoadedTourReviews reviewsState n (tour reviewToDelete) w4
                   in (ok, dispatch (reviews_setSubmitting False) w5))))"

section \<open>useBookings\<close>

definition loadUserBookings :: "net \<Rightarrow> world \<Rightarrow> result \<times> world" where
  "loadUserBookings n w =
     (case bookingsService_fetchUserBookings n
             (dispatch bookings_clearError (dispatch (bookings_setLoading True) w)) of
        (Inr bs, w1) \<Rightarrow>
          (ok, dispatch (bookings_setLoading False) (dispatch (setUserBookings bs) w1))
      | (Inl e, w1) \<Rightarrow>
          (let errorMessage =
                 bookingsErrorMessage e ''Failed to load your bookings. Please try again.''
           in (failed errorMessage,
               dispatch (bookings_setLoading False)
                 (dispatch (bookings_setError errorMessage) w1))))"

definition updateBookingStatus :: "net \<Rightarrow> string \<Rightarrow> string \<Rightarrow> world \<Rightarrow> result \<times> world" where
  "updateBookingStatus n bookingId st w =
     (case bookingsService_updateBookingStatus n bookingId st
             (dispatch bookings_clearError (dispatch (bookings_setSubmitting True) w)) of
        (Inr u, w1) \<Rightarrow>
          (ok, dispatch (bookings_setSubmitting False)
                 (dispatch (updateUserBookingStatus bookingId st) w1))
      | (Inl e, w1) \<Rightarrow>
          (let errorMessage =
                 bookingsErrorMessage e ''Failed to update booking status. Please try again.''
           in (failed errorMessage,
               dispatch (bookings_setSubmitting False)
                 (dispatch (bookings_setError errorMessage) w1))))"

definition getPendingReviewBookings :: "bookings_state \<Rightarrow> booking list" where
  "getPendingReviewBookings bookingsState =
     filter (\<lambda>b. status b = ''pending-review'') (userBookings bookingsState)"

definition markBookingAsReviewed ::
    "bookings_state \<Rightarrow> net \<Rightarrow> string \<Rightarrow> world \<Rightarrow> result \<times> world" where
  "markBookingAsReviewed bookingsState n t w =
     (case findBookingByTourId bookingsState t of
        None \<Rightarrow> (failed ''Booking not found'', w)
      | Some b \<Rightarrow>
          if status b \<noteq> ''pending-review''
          then (failed ''Booking is not pending review'', w)
          else updateBookingStatus n (booking_id b) ''reviewed'' w)"

definition markBookingAsPendingReview ::
    "bookings_state \<Rightarrow> net \<Rightarrow> string \<Rightarrow> world \<Rightarrow> result \<times> world" where
  "markBookingAsPendingReview bookingsState n t w =
     (case findBookingByTourId bookingsState t of
        None \<Rightarrow> (failed ''Booking not found'', w)
      | Some b \<Rightarrow>
          if status b \<noteq> ''reviewed''
          then (failed ''Booking is not reviewed'', w)
          else updateBookingStatus n (booking_id b) ''pending-review'' w)"

definition getTourBookingStatus :: "bookings_state \<Rightarrow> string \<Rightarrow> string option" where
  "getTourBookingStatus bookingsState t = map_option status (findBookingByTourId bookingsState t)"

section \<open>Example inputs\<close>

text \<open>
  The example of the spec: booking \<^verbatim>\<open>b1\<close> of tour \<^verbatim>\<open>t1\<close>, and the review
  \<^verbatim>\<open>{tour: "t1", rating: 5, review: "Great!"}\<close>, which the remote store returns as
  \<^verbatim>\<open>r1\<close>. \<open>example_world bs urs trs\<close> has the bookings \<open>bs\<close>, with the same status locally
  and remotely, the user's reviews \<open>urs\<close> and the tour reviews \<open>trs\<close>; nothing has been
  dispatched or called yet. In \<open>world_pending\<close> the booking awaits a review, in
  \<open>world_reviewed\<close> the user has reviewed the tour, in \<open>world_unbooked\<close> the user has a
  review and no booking, and in \<open>world_warm\<close> the reviews of the tour are loaded. In
  \<open>world_two_pending\<close> and \<open>world_two_reviewed\<close> the user has booked the tour twice:
  booking \<^verbatim>\<open>b1\<close> is \<^verbatim>\<open>'confirmed'\<close> and comes first, booking \<^verbatim>\<open>b2\<close> comes second. In
  \<open>world_empty_entry\<close> the reviews of the tour are loaded and there are none.
\<close>

definition example_user :: user_ref where
  "example_user = \<lparr>user_id = ''u1'', name = ''Ann'', photo = ''ann.jpg''\<rparr>"

definition example_review :: review where
  "example_review =
     \<lparr>review_id = ''r1'', review_text = ''Great!'', rating = 5,
      createdAt = ''2024-01-15T10:00:00Z'', updatedAt = None, tour = ''t1'',
      user = example_user\<rparr>"

definition example_data :: CreateReviewData where
  "example_data = \<lparr>data_tour = ''t1'', data_rating = 5, data_review = ''Great!''\<rparr>"

definition example_update :: UpdateReviewData where
  "example_update = \<lparr>new_rating = Some 4, new_review = None, new_updatedAt = None\<rparr>"

definition example_booking :: "string \<Rightarrow> booking" where
  "example_booking st = \<lparr>booking_id = ''b1'', tourId = ''t1'', status = st\<rparr>"

definition example_world ::
    "booking list \<Rightarrow> review list \<Rightarrow> (string \<rightharpoonup> review list) \<Rightarrow> world" where
  "example_world bs urs trs =
     \<lparr>reviews = \<lparr>tourReviews = trs, userReviews = urs, currentReview = None,
                 reviews_isLoading = False, reviews_isSubmitting = False,
                 reviews_error = None\<rparr>,
      bookings = \<lparr>userBookings = bs, currentBooking = None,
                  bookings_isLoading = False, bookings_isSubmitting = False,
                  bookings_error = None\<rparr>,
      dispatched = [],
      remote_bookings = map_of (map (\<lambda>b. (booking_id b, status b)) bs),
      remote_calls = []\<rparr>"

definition world_pending :: world where
  "world_pending = example_world [example_booking ''pending-review''] [] Map.empty"

definition world_reviewed :: world where
  "world_reviewed = example_world [example_booking ''reviewed''] [example_review] Map.empty"

definition world_unbooked :: world where
  "world_unbooked = example_world [] [example_review] Map.empty"

definition second_booking :: "string \<Rightarrow> booking" where
  "second_booking st = \<lparr>booking_id = ''b2'', tourId = ''t1'', status = st\<rparr>"

definition world_two_pending :: world where
  "world_two_pending =
     example_world [example_booking ''confirmed'', second_booking ''pending-review''] []
       Map.empty"

definition world_two_reviewed :: world where
  "world_two_reviewed =
     example_world [example_booking ''confirmed'', second_booking ''reviewed'']
       [example_review] Map.empty"

definition world_empty_entry :: world where
  "world_empty_entry = example_world [] [] [''t1'' \<mapsto> []]"

definition world_warm :: world where
  "world_warm =
     example_world [example_booking ''reviewed''] [example_review] [''t1'' \<mapsto> [example_review]]"

text \<open>
  \<open>net_up\<close> answers every request; \<open>net_bookings_down\<close> answers the review requests and
  fails every booking-status update; \<open>net_no_reviews\<close> answers every request and finds
  no reviews for any tour; \<open>net_down\<close> fails every request.
\<close>

definition net_up :: net where
  "net_up =
     \<lparr>get_tour_reviews = (\<lambda>t. Inr [example_review]),
      get_my_reviews = Inr [example_review],
      post_review = (\<lambda>d. Inr example_review),
      patch_review = (\<lambda>i u. Inr example_review),
      delete_review = (\<lambda>i. None),
      get_my_bookings = Inr [example_booking ''pending-review''],
      patch_booking_status = (\<lambda>i st. None)\<rparr>"

definition net_bookings_down :: net where
  "net_bookings_down =
     net_up\<lparr>patch_booking_status := (\<lambda>i st. Some (BookingsError ''Network Error''))\<rparr>"

definition net_no_reviews :: net where
  "net_no_reviews = net_up\<lparr>get_tour_reviews := (\<lambda>t. Inr [])\<rparr>"

definition network_error :: api_error where
  "network_error = \<lparr>statusCode = None, message = ''Network Error''\<rparr>"

definition net_down :: net where
  "net_down =
     \<lparr>get_tour_reviews = (\<lambda>t. Inl network_error),
      get_my_reviews = Inl network_error,
      post_review = (\<lambda>d. Inl network_error),
      patch_review = (\<lambda>i u. Inl network_error),
      delete_review = (\<lambda>i. Some network_error),
      get_my_bookings = Inl (BookingsError ''Network Error''),
      patch_booking_status = (\<lambda>i st. Some (BookingsError ''Network Error''))\<rparr>"

section \<open>The store and the services, field by field\<close>

text \<open>
  What a dispatch and a service call change in each field of the world.
\<close>

lemma dispatch_sel [simp]:
  "reviews (dispatch a w) = reviewsReducer (reviews w) a"
  "bookings (dispatch a w) = bookingsReducer (bookings w) a"
  "dispatched (dispatch a w) = dispatched w @ [a]"
  "remote_bookings (dispatch a w) = remote_bookings w"
  "remote_calls (dispatch a w) = remote_calls w"
  by (simp_all add: dispatch_def)

lemma called_sel [simp]:
  "reviews (called c w) = reviews w"
  "bookings (called c w) = bookings w"
  "dispatched (called c w) = dispatched w"
  "remote_bookings (called c w) = remote_bookings w"
  "remote_calls (called c w) = remote_calls w @ [c]"
  by (simp_all add: called_def)

lemma status_writes_dispatch [simp]:
  "remote_status_writes (dispatch a w) = remote_status_writes w"
  "local_status_writes (dispatch a w) =
     local_status_writes w @ (if is_booking_status_write a then [a] else [])"
  by (simp_all add: remote_status_writes_def local_status_writes_def)

lemma status_writes_called [simp]:
  "local_status_writes (called c w) = local_status_writes w"
  "remote_status_writes (called c w) =
     remote_status_writes w @ (if is_booking_status_call c then [c] else [])"
  by (simp_all add: remote_status_writes_def local_status_writes_def)

lemma updateBookingStatus_service_sel [simp]:
  "reviews (snd (bookingsService_updateBookingStatus n i st w)) = reviews w"
  "bookings (snd (bookingsService_updateBookingStatus n i st w)) = bookings w"
  "dispatched (snd (bookingsService_updateBookingStatus n i st w)) = dispatched w"
  "remote_calls (snd (bookingsService_updateBookingStatus n i st w)) =
     remote_calls w @ [call_updateBookingStatus i st]"
  "remote_bookings (snd (bookingsService_updateBookingStatus n i st w)) =
     (if remote_update_succeeds n i st w then (remote_bookings w)(i \<mapsto> st) else remote_bookings w)"
  by (auto simp: bookingsService_updateBookingStatus_def remote_update_succeeds_def
           split: option.splits)

lemma remote_update_succeeds_dispatch [simp]:
  "remote_update_succeeds n i st (dispatch a w) = remote_update_succeeds n i st w"
  "remote_update_succeeds n i st (called c w) = remote_update_succeeds n i st w"
  by (simp_all add: remote_update_succeeds_def)

lemma updateBookingStatus_calls:
  "remote_calls (snd (updateBookingStatus n i st w)) = remote_calls w @ [call_updateBookingStatus i st]"
  by (auto simp: updateBookingStatus_def bookingsService_updateBookingStatus_def Let_def
           split: option.splits)

subsection \<open>Results\<close>

lemma failed_sel [simp]:
  "success (failed m) = False" "error (failed m) = Some m" "review (failed m) = None"
  by (simp_all add: failed_def)

lemma ok_sel [simp]:
  "success ok = True" "error ok = None" "review ok = None"
  by (simp_all add: ok_def)

lemma submitFailed_fst [simp]: "fst (submitFailed m w) = failed m"
  by (simp add: submitFailed_def)

lemma submitFailed_sel [simp]:
  "bookings (snd (submitFailed m w)) = bookings w"
  "remote_bookings (snd (submitFailed m w)) = remote_bookings w"
  "remote_calls (snd (submitFailed m w)) = remote_calls w"
  "local_status_writes (snd (submitFailed m w)) = local_status_writes w"
  "remote_status_writes (snd (submitFailed m w)) = remote_status_writes w"
  "reviews (snd (submitFailed m w)) =
     (reviews w)\<lparr>reviews_error := Some m, reviews_isSubmitting := False\<rparr>"
  by (simp_all add: submitFailed_def)

subsection \<open>Loading and refreshing the reviews of a tour\<close>

text \<open>
  Loading touches neither the bookings, nor the user's reviews, nor the remote statuses,
  and it only adds to the log of remote calls.
\<close>

lemma loadTourReviews_frame:
  "bookings (snd (loadTourReviews rs n t w)) = bookings w"
  "remote_bookings (snd (loadTourReviews rs n t w)) = remote_bookings w"
  "userReviews (reviews (snd (loadTourReviews rs n t w))) = userReviews (reviews w)"
  "local_status_writes (snd (loadTourReviews rs n t w)) = local_status_writes w"
  "remote_status_writes (snd (loadTourReviews rs n t w)) = remote_status_writes w"
  by (auto simp: loadTourReviews_def Let_def reviewsService_fetchTourReviews_def
           split: prod.splits sum.splits option.splits)

lemma refresh_frame:
  "bookings (refreshLoadedTourReviews rs n t w) = bookings w"
  "remote_bookings (refreshLoadedTourReviews rs n t w) = remote_bookings w"
  "userReviews (reviews (refreshLoadedTourReviews rs n t w)) = userReviews (reviews w)"
  "local_status_writes (refreshLoadedTourReviews rs n t w) = local_status_writes w"
  "remote_status_writes (refreshLoadedTourReviews rs n t w) = remote_status_writes w"
  by (simp_all add: refreshLoadedTourReviews_def loadTourReviews_frame split: option.splits)

lemma loadTourReviews_calls:
  "take (length (remote_calls w)) (remote_calls (snd (loadTourReviews rs n t w))) = remote_calls w"
  by (auto simp: loadTourReviews_def Let_def reviewsService_fetchTourReviews_def
           split: prod.splits sum.splits option.splits)

lemma refresh_calls:
  "take (length (remote_calls w)) (remote_calls (refreshLoadedTourReviews rs n t w)) = remote_calls w"
  using loadTourReviews_calls [of "dispatch (clearTourReviews t) w" rs n t]
  by (simp add: refreshLoadedTourReviews_def split: option.splits)

lemma loadTourReviews_structured:
  "success (fst (loadTourReviews rs n t w)) \<longleftrightarrow> error (fst (loadTourReviews rs n t w)) = None"
  by (auto simp: loadTourReviews_def Let_def split: prod.splits sum.splits option.splits)

lemma loadTourReviews_failure:
  "\<not> (case tourReviews rs t of None \<Rightarrow> False | Some xs \<Rightarrow> 0 < length xs) \<Longrightarrow>
   get_tour_reviews n t = Inl e \<Longrightarrow>
   fst (loadTourReviews rs n t w) =
     failed (reviewsErrorMessage (transformReviewsError e) ''Failed to load reviews. Please try again.'')"
  by (simp add: loadTourReviews_def reviewsService_fetchTourReviews_def Let_def)

lemma loadUserReviews_structured:
  "success (fst (loadUserReviews n w)) \<longleftrightarrow> error (fst (loadUserReviews n w)) = None"
  by (auto simp: loadUserReviews_def Let_def split: prod.splits sum.splits)

lemma loadUserReviews_failure:
  "get_my_reviews n = Inl e \<Longrightarrow>
   fst (loadUserReviews n w) =
     failed (reviewsErrorMessage (transformReviewsError e)
               ''Failed to load your reviews. Please try again.'')"
  by (simp add: loadUserReviews_def reviewsService_fetchUserReviews_def Let_def)

subsection \<open>The booking coordination step\<close>

lemma coordinate_none:
  "findBookingByTourId bs t = None \<Longrightarrow> coordinateBooking bs n t from to w = w"
  by (simp add: coordinateBooking_def)

lemma coordinate_other:
  "findBookingByTourId bs t = Some b \<Longrightarrow> status b \<noteq> from \<Longrightarrow>
   coordinateBooking bs n t from to w = w"
  by (simp add: coordinateBooking_def)

lemma coordinate_flip:
  "findBookingByTourId bs t = Some b \<Longrightarrow> status b = from \<Longrightarrow>
   coordinateBooking bs n t from to w =
     snd (bookingsService_updateBookingStatus n (booking_id b) to
            (dispatch (updateUserBookingStatus (booking_id b) to) w))"
  by (simp add: coordinateBooking_def)

lemma coordinate_reviews [simp]:
  "reviews (coordinateBooking bs n t from to w) = reviews w"
  by (simp add: coordinateBooking_def split: option.splits)

lemma find_status_flip:
  "find (\<lambda>b. tourId b = t) bs = Some b \<Longrightarrow>
   find (\<lambda>b. tourId b = t)
     (map (\<lambda>x. if booking_id x = booking_id b then x\<lparr>status := st\<rparr> else x) bs)
   = Some (b\<lparr>status := st\<rparr>)"
  by (induction bs) (auto split: if_splits)

lemma status_after_flip:
  "findBookingByTourId bs t = Some b \<Longrightarrow>
   getTourBookingStatus
     (bs\<lparr>userBookings :=
           map (\<lambda>x. if booking_id x = booking_id b then x\<lparr>status := st\<rparr> else x) (userBookings bs)\<rparr>) t
   = Some st"
  by (simp add: getTourBookingStatus_def findBookingByTourId_def find_status_flip)

lemma found_in_cache:
  "findBookingByTourId bs t = Some b \<Longrightarrow> b \<in> set (userBookings bs) \<and> tourId b = t"
  by (auto simp: findBookingByTourId_def find_Some_iff)

subsection \<open>The paths of the three mutations\<close>

text \<open>
  Each mutation, by the answer to its primary call.
\<close>

lemma createReview_failure:
  "post_review n d = Inl e \<Longrightarrow>
   createReview rs bs n d w =
     submitFailed (reviewsErrorMessage (transformReviewsError e)
                     ''Failed to create review. Please try again.'')
       (called (call_createReview d)
          (dispatch reviews_clearError (dispatch (reviews_setSubmitting True) w)))"
  by (simp add: createReview_def reviewsService_createReview_def)

lemma createReview_success:
  "post_review n d = Inr r \<Longrightarrow>
   createReview rs bs n d w =
     (\<lparr>success = True, error = None, review = Some r\<rparr>,
      dispatch (reviews_setSubmitting False)
        (refreshLoadedTourReviews rs n (data_tour d)
           (coordinateBooking bs n (data_tour d) ''pending-review'' ''reviewed''
              (dispatch (addUserReview r)
                 (called (call_createReview d)
                    (dispatch reviews_clearError (dispatch (reviews_setSubmitting True) w)))))))"
  by (simp add: createReview_def reviewsService_createReview_def Let_def)

lemma updateReview_failure:
  "patch_review n i u = Inl e \<Longrightarrow>
   updateReview rs n i u w =
     submitFailed (reviewsErrorMessage (transformReviewsError e)
                     ''Failed to update review. Please try again.'')
       (called (call_updateReview i u)
          (dispatch reviews_clearError (dispatch (reviews_setSubmitting True) w)))"
  by (simp add: updateReview_def reviewsService_updateReview_def)

lemma updateReview_success:
  "patch_review n i u = Inr r \<Longrightarrow>
   updateReview rs n i u w =
     (\<lparr>success = True, error = None, review = Some r\<rparr>,
      dispatch (reviews_setSubmitting False)
        (refreshLoadedTourReviews rs n (tour r)
           (let w2 = dispatch (updateUserReview r)
                       (called (call_updateReview i u)
                          (dispatch reviews_clearError (dispatch (reviews_setSubmitting True) w)))
            in case currentReview rs of
                 None \<Rightarrow> w2
               | Some c \<Rightarrow> if review_id c = i then dispatch (setCurrentReview r) w2 else w2)))"
  by (simp add: updateReview_def reviewsService_updateReview_def Let_def)

lemma deleteReview_not_found:
  "find (\<lambda>r. review_id r = i) (userReviews rs) = None \<Longrightarrow>
   deleteReview rs bs n i w =
     submitFailed ''Review not found in local state''
       (dispatch reviews_clearError (dispatch (reviews_setSubmitting True) w))"
  by (simp add: deleteReview_def)

lemma deleteReview_failure:
  "find (\<lambda>r. review_id r = i) (userReviews rs) = Some r \<Longrightarrow> delete_review n i = Some e \<Longrightarrow>
   deleteReview rs bs n i w =
     submitFailed (reviewsErrorMessage (transformReviewsError e)
                     ''Failed to delete review. Please try again.'')
       (called (call_deleteReview i)
          (dispatch reviews_clearError (dispatch (reviews_setSubmitting True) w)))"
  by (simp add: deleteReview_def reviewsService_deleteReview_def)

lemma deleteReview_success:
  "find (\<lambda>r. review_id r = i) (userReviews rs) = Some r \<Longrightarrow> delete_review n i = None \<Longrightarrow>
   deleteReview rs bs n i w =
     (ok, dispatch (reviews_setSubmitting False)
            (refreshLoadedTourReviews rs n (tour r)
               (let w3 = coordinateBooking bs n (tour r) ''reviewed'' ''pending-review''
                           (dispatch (removeUserReview i)
                              (called (call_deleteReview i)
                                 (dispatch reviews_clearError
                                    (dispatch (reviews_setSubmitting True) w))))
                in case currentReview rs of
                     None \<Rightarrow> w3
                   | Some c \<Rightarrow> if review_id c = i then dispatch clearCurrentReview w3 else w3)))"
  by (simp add: deleteReview_def reviewsService_deleteReview_def Let_def)

lemma after_clearCurrent_frame:
  "bookings (case c of None \<Rightarrow> w | Some x \<Rightarrow> if P x then dispatch clearCurrentReview w else w) = bookings w"
  "remote_bookings (case c of None \<Rightarrow> w | Some x \<Rightarrow> if P x then dispatch clearCurrentReview w else w) = remote_bookings w"
  "local_status_writes (case c of None \<Rightarrow> w | Some x \<Rightarrow> if P x then dispatch clearCurrentReview w else w) = local_status_writes w"
  "remote_status_writes (case c of None \<Rightarrow> w | Some x \<Rightarrow> if P x then dispatch clearCurrentReview w else w) = remote_status_writes w"
  by (simp_all split: option.splits)

lemma after_setCurrent_frame:
  "bookings (case c of None \<Rightarrow> w | Some x \<Rightarrow> if P x then dispatch (setCurrentReview r) w else w) = bookings w"
  "remote_bookings (case c of None \<Rightarrow> w | Some x \<Rightarrow> if P x then dispatch (setCurrentReview r) w else w) = remote_bookings w"
  "remote_calls (case c of None \<Rightarrow> w | Some x \<Rightarrow> if P x then dispatch (setCurrentReview r) w else w) = remote_calls w"
  "local_status_writes (case c of None \<Rightarrow> w | Some x \<Rightarrow> if P x then dispatch (setCurrentReview r) w else w) = local_status_writes w"
  "remote_status_writes (case c of None \<Rightarrow> w | Some x \<Rightarrow> if P x then dispatch (setCurrentReview r) w else w) = remote_status_writes w"
  "userReviews (reviews (case c of None \<Rightarrow> w | Some x \<Rightarrow> if P x then dispatch (setCurrentReview r) w else w)) = userReviews (reviews w)"
  by (simp_all split: option.splits)

lemma createReview_structured:
  "success (fst (createReview rs bs n d w)) \<longleftrightarrow> error (fst (createReview rs bs n d w)) = None"
  by (cases "post_review n d") (simp_all add: createReview_failure createReview_success)

lemma updateReview_structured:
  "success (fst (updateReview rs n i u w)) \<longleftrightarrow> error (fst (updateReview rs n i u w)) = None"
  by (cases "patch_review n i u") (simp_all add: updateReview_failure updateReview_success)

lemma deleteReview_structured:
  "success (fst (deleteReview rs bs n i w)) \<longleftrightarrow> error (fst (deleteReview rs bs n i w)) = None"
proof (cases "find (\<lambda>r. review_id r = i) (userReviews rs)")
  case None
  then show ?thesis by (simp add: deleteReview_not_found)
next
  case (Some x)
  then show ?thesis
    by (cases "delete_review n i") (simp_all add: deleteReview_failure deleteReview_success)
qed

subsection \<open>The paths of the two guards of useBookings\<close>

lemma markBookingAsReviewed_refuses:
  assumes "\<not> (\<exists>b. findBookingByTourId bs t = Some b \<and> status b = ''pending-review'')"
  shows "\<not> success (fst (markBookingAsReviewed bs n t w))
       \<and> error (fst (markBookingAsReviewed bs n t w)) \<noteq> None
       \<and> snd (markBookingAsReviewed bs n t w) = w"
  using assms by (cases "findBookingByTourId bs t") (simp_all add: markBookingAsReviewed_def)

lemma markBookingAsPendingReview_refuses:
  assumes "\<not> (\<exists>b. findBookingByTourId bs t = Some b \<and> status b = ''reviewed'')"
  shows "\<not> success (fst (markBookingAsPendingReview bs n t w))
       \<and> error (fst (markBookingAsPendingReview bs n t w)) \<noteq> None
       \<and> snd (markBookingAsPendingReview bs n t w) = w"
  using assms by (cases "findBookingByTourId bs t") (simp_all add: markBookingAsPendingReview_def)

lemma markBookingAsReviewed_updates:
  "findBookingByTourId bs t = Some b \<Longrightarrow> status b = ''pending-review'' \<Longrightarrow>
   markBookingAsReviewed bs n t w = updateBookingStatus n (booking_id b) ''reviewed'' w"
  by (simp add: markBookingAsReviewed_def)

lemma markBookingAsPendingReview_updates:
  "findBookingByTourId bs t = Some b \<Longrightarrow> status b = ''reviewed'' \<Longrightarrow>
   markBookingAsPendingReview bs n t w = updateBookingStatus n (booking_id b) ''pending-review'' w"
  by (simp add: markBookingAsPendingReview_def)

subsection \<open>The writes to the reviews\<close>

lemma review_writes_dispatch [simp]:
  "remote_review_writes (dispatch a w) = remote_review_writes w"
  "local_review_writes (dispatch a w) =
     local_review_writes w @ (if is_user_reviews_write a then [a] else [])"
  by (simp_all add: remote_review_writes_def local_review_writes_def)

lemma review_writes_called [simp]:
  "local_review_writes (called c w) = local_review_writes w"
  "remote_review_writes (called c w) =
     remote_review_writes w @ (if is_review_call c then [c] else [])"
  by (simp_all add: remote_review_writes_def local_review_writes_def)

lemma review_writes_updateBookingStatus [simp]:
  "local_review_writes (snd (bookingsService_updateBookingStatus n i st w)) =
     local_review_writes w"
  "remote_review_writes (snd (bookingsService_updateBookingStatus n i st w)) =
     remote_review_writes w"
  by (simp_all add: remote_review_writes_def local_review_writes_def)

lemma review_writes_coordinate [simp]:
  "local_review_writes (coordinateBooking bs n t from to w) = local_review_writes w"
  "remote_review_writes (coordinateBooking bs n t from to w) = remote_review_writes w"
  by (simp_all add: coordinateBooking_def split: option.splits)

lemma review_writes_load [simp]:
  "local_review_writes (snd (loadTourReviews rs n t w)) = local_review_writes w"
  "remote_review_writes (snd (loadTourReviews rs n t w)) = remote_review_writes w"
  by (auto simp: loadTourReviews_def Let_def reviewsService_fetchTourReviews_def
           split: prod.splits sum.splits option.splits)

lemma review_writes_refresh [simp]:
  "local_review_writes (refreshLoadedTourReviews rs n t w) = local_review_writes w"
  "remote_review_writes (refreshLoadedTourReviews rs n t w) = remote_review_writes w"
  by (simp_all add: refreshLoadedTourReviews_def split: option.splits)

lemma review_writes_after_clearCurrent [simp]:
  "local_review_writes
     (case c of None \<Rightarrow> w | Some x \<Rightarrow> if P x then dispatch clearCurrentReview w else w)
   = local_review_writes w"
  "remote_review_writes
     (case c of None \<Rightarrow> w | Some x \<Rightarrow> if P x then dispatch clearCurrentReview w else w)
   = remote_review_writes w"
  by (simp_all split: option.splits)

lemma found_after_flip:
  "findBookingByTourId bs t = Some b \<Longrightarrow>
   findBookingByTourId
     (bs\<lparr>userBookings :=
           map (\<lambda>x. if booking_id x = booking_id b then x\<lparr>status := st\<rparr> else x) (userBookings bs)\<rparr>) t
   = Some (b\<lparr>status := st\<rparr>)"
  by (simp add: findBookingByTourId_def find_status_flip)

lemmas example_defs = example_world_def world_pending_def world_reviewed_def
  world_unbooked_def world_warm_def world_two_pending_def world_two_reviewed_def
  world_empty_entry_def example_booking_def second_booking_def example_data_def
  example_update_def example_review_def example_user_def net_up_def net_bookings_down_def
  net_no_reviews_def net_down_def network_error_def

lemmas run_defs = reviewsService_createReview_def reviewsService_deleteReview_def
  reviewsService_updateReview_def reviewsService_fetchTourReviews_def
  reviewsService_fetchUserReviews_def
  coordinateBooking_def findBookingByTourId_def refreshLoadedTourReviews_def
  bookingsService_updateBookingStatus_def submitFailed_def transformReviewsError_def
  dispatch_def called_def Let_def getTourBookingStatus_def remote_update_succeeds_def

section \<open>Booking status after a review is created or deleted\<close>

text \<open>
  C1, as the code has it. Let the hook be rendered from the store of \<open>w\<close>, let \<open>b\<close> be
  the booking that \<^verbatim>\<open>findBookingByTourId\<close> finds for the tour of the new review, that is
  the first booking of that tour in the local bookings cache, let its status be
  \<^verbatim>\<open>'pending-review'\<close>, and let \<^verbatim>\<open>createReview\<close> return \<^verbatim>\<open>success: true\<close>. Then afterwards
  the booking found for the tour in the local bookings cache is \<open>b\<close> with status
  \<^verbatim>\<open>'reviewed'\<close>. On the happy path, where the remote booking-status update succeeds, the
  status of \<open>b\<close> in the remote store is \<^verbatim>\<open>'reviewed'\<close> too; when that update fails, the
  remote status is what it was before.
\<close>

theorem createReview_flips_booking:
  assumes found: "findBookingByTourId (bookings w) (data_tour d) = Some b"
      and pending: "status b = ''pending-review''"
      and succ: "success (fst (createReview (reviews w) (bookings w) n d w))"
  shows "findBookingByTourId
           (bookings (snd (createReview (reviews w) (bookings w) n d w))) (data_tour d)
         = Some (b\<lparr>status := ''reviewed''\<rparr>)
       \<and> getTourBookingStatus
           (bookings (snd (createReview (reviews w) (bookings w) n d w))) (data_tour d)
         = Some ''reviewed''
       \<and> remote_bookings (snd (createReview (reviews w) (bookings w) n d w)) (booking_id b)
         = (if remote_update_succeeds n (booking_id b) ''reviewed'' w
            then Some ''reviewed'' else remote_bookings w (booking_id b))"
proof (cases "post_review n d")
  case (Inl e)
  with succ show ?thesis by (simp add: createReview_failure)
next
  case (Inr r)
  show ?thesis
    by (simp add: createReview_success [OF Inr] refresh_frame
          coordinate_flip [OF found pending] status_after_flip [OF found]
          found_after_flip [OF found])
qed

text \<open>
  The theorem at the example of the spec, every request answered: booking \<^verbatim>\<open>b1\<close> ends
  \<^verbatim>\<open>'reviewed'\<close> locally and remotely.
\<close>

theorem createReview_flips_booking_witness:
  "findBookingByTourId (bookings world_pending) (data_tour example_data)
     = Some (example_booking ''pending-review'')
   \<and> status (example_booking ''pending-review'') = ''pending-review''
   \<and> success (fst (createReview (reviews world_pending) (bookings world_pending)
                     net_up example_data world_pending))
   \<and> remote_update_succeeds net_up ''b1'' ''reviewed'' world_pending
   \<and> findBookingByTourId
        (bookings (snd (createReview (reviews world_pending) (bookings world_pending)
                          net_up example_data world_pending))) ''t1''
       = Some (example_booking ''reviewed'')
   \<and> getTourBookingStatus
        (bookings (snd (createReview (reviews world_pending) (bookings world_pending)
                          net_up example_data world_pending))) ''t1''
       = Some ''reviewed''
   \<and> remote_bookings
        (snd (createReview (reviews world_pending) (bookings world_pending)
                net_up example_data world_pending)) ''b1''
       = Some ''reviewed''"
proof -
  have found: "findBookingByTourId (bookings world_pending) (data_tour example_data)
     = Some (example_booking ''pending-review'')"
    by (simp add: example_defs findBookingByTourId_def)
  have pending: "status (example_booking ''pending-review'') = ''pending-review''"
    by (simp add: example_booking_def)
  have succ: "success (fst (createReview (reviews world_pending) (bookings world_pending)
                     net_up example_data world_pending))"
    by (simp add: createReview_success [where r = example_review] net_up_def)
  have accepted: "remote_update_succeeds net_up ''b1'' ''reviewed'' world_pending"
    by (simp add: remote_update_succeeds_def example_defs)
  have b1: "booking_id (example_booking ''pending-review'') = ''b1''"
    by (simp add: example_booking_def)
  have t1: "data_tour example_data = ''t1''"
    by (simp add: example_data_def)
  have flipped: "(example_booking ''pending-review'')\<lparr>status := ''reviewed''\<rparr>
      = example_booking ''reviewed''"
    by (simp add: example_booking_def)
  show ?thesis
    using createReview_flips_booking [OF found pending succ] found pending succ accepted
    by (simp add: b1 t1 flipped)
qed

text \<open>
  C1 as stated fails, on the happy path. The user has booked tour \<^verbatim>\<open>t1\<close> twice: booking
  \<^verbatim>\<open>b1\<close> is \<^verbatim>\<open>'confirmed'\<close> and comes first in the cache, booking \<^verbatim>\<open>b2\<close> is
  \<^verbatim>\<open>'pending-review'\<close>. Every request is answered and the remote store would accept the
  status update of \<^verbatim>\<open>b2\<close>. \<^verbatim>\<open>createReview\<close> returns \<^verbatim>\<open>success: true\<close>, and afterwards the
  bookings cache is as before, no booking of the tour is \<^verbatim>\<open>'reviewed'\<close> in it, and in the
  remote store \<^verbatim>\<open>b2\<close> is still \<^verbatim>\<open>'pending-review'\<close>: the lookup stops at \<^verbatim>\<open>b1\<close>.
\<close>

theorem createReview_first_booking_only:
  "second_booking ''pending-review'' \<in> set (userBookings (bookings world_two_pending))
   \<and> tourId (second_booking ''pending-review'') = data_tour example_data
   \<and> status (second_booking ''pending-review'') = ''pending-review''
   \<and> remote_update_succeeds net_up ''b2'' ''reviewed'' world_two_pending
   \<and> fst (createReview (reviews world_two_pending) (bookings world_two_pending)
             net_up example_data world_two_pending)
       = \<lparr>success = True, error = None, review = Some example_review\<rparr>
   \<and> userBookings
        (bookings (snd (createReview (reviews world_two_pending) (bookings world_two_pending)
                          net_up example_data world_two_pending)))
       = [example_booking ''confirmed'', second_booking ''pending-review'']
   \<and> \<not> (\<exists>b \<in> set (userBookings
                (bookings (snd (createReview (reviews world_two_pending)
                                  (bookings world_two_pending) net_up example_data
                                  world_two_pending)))).
          tourId b = ''t1'' \<and> status b = ''reviewed'')
   \<and> remote_bookings
        (snd (createReview (reviews world_two_pending) (bookings world_two_pending)
                net_up example_data world_two_pending)) ''b2''
       = Some ''pending-review''
   \<and> remote_bookings
        (snd (createReview (reviews world_two_pending) (bookings world_two_pending)
                net_up example_data world_two_pending)) ''b1''
       = Some ''confirmed''"
  by (simp add: example_defs createReview_def run_defs)

text \<open>
  C2, as the code has it. Let the hook be rendered from the store of \<open>w\<close>, let \<open>r\<close> be the
  review of id \<open>i\<close> in the user-reviews cache, let \<open>b\<close> be the booking that
  \<^verbatim>\<open>findBookingByTourId\<close> finds for the tour of \<open>r\<close>, that is the first booking of that tour
  in the local bookings cache, let its status be \<^verbatim>\<open>'reviewed'\<close>, and let \<^verbatim>\<open>deleteReview\<close>
  return \<^verbatim>\<open>success: true\<close>. Then afterwards the booking found for the tour in the local
  bookings cache is \<open>b\<close> with status \<^verbatim>\<open>'pending-review'\<close>. On the happy path, where the
  remote booking-status update succeeds, the status of \<open>b\<close> in the remote store is
  \<^verbatim>\<open>'pending-review'\<close> too; when that update fails, the remote status is what it was
  before.
\<close>

theorem deleteReview_flips_booking:
  assumes rev: "find (\<lambda>r. review_id r = i) (userReviews (reviews w)) = Some r"
      and found: "findBookingByTourId (bookings w) (tour r) = Some b"
      and reviewed: "status b = ''reviewed''"
      and succ: "success (fst (deleteReview (reviews w) (bookings w) n i w))"
  shows "findBookingByTourId
           (bookings (snd (deleteReview (reviews w) (bookings w) n i w))) (tour r)
         = Some (b\<lparr>status := ''pending-review''\<rparr>)
       \<and> getTourBookingStatus
           (bookings (snd (deleteReview (reviews w) (bookings w) n i w))) (tour r)
         = Some ''pending-review''
       \<and> remote_bookings (snd (deleteReview (reviews w) (bookings w) n i w)) (booking_id b)
         = (if remote_update_succeeds n (booking_id b) ''pending-review'' w
            then Some ''pending-review'' else remote_bookings w (booking_id b))"
proof (cases "delete_review n i")
  case (Some e)
  with succ rev show ?thesis by (simp add: deleteReview_failure)
next
  case None
  show ?thesis
    by (simp add: deleteReview_success [OF rev None] refresh_frame Let_def
          coordinate_flip [OF found reviewed] status_after_flip [OF found]
          found_after_flip [OF found]
        split: option.splits)
qed

text \<open>
  The theorem at the example of the spec, every request answered: deleting review \<^verbatim>\<open>r1\<close>
  returns booking \<^verbatim>\<open>b1\<close> to \<^verbatim>\<open>'pending-review'\<close> locally and remotely.
\<close>

theorem deleteReview_flips_booking_witness:
  "find (\<lambda>r. review_id r = ''r1'') (userReviews (reviews world_reviewed)) = Some example_review
   \<and> findBookingByTourId (bookings world_reviewed) (tour example_review)
       = Some (example_booking ''reviewed'')
   \<and> status (example_booking ''reviewed'') = ''reviewed''
   \<and> success (fst (deleteReview (reviews world_reviewed) (bookings world_reviewed)
                     net_up ''r1'' world_reviewed))
   \<and> remote_update_succeeds net_up ''b1'' ''pending-review'' world_reviewed
   \<and> findBookingByTourId
        (bookings (snd (deleteReview (reviews world_reviewed) (bookings world_reviewed)
                          net_up ''r1'' world_reviewed))) ''t1''
       = Some (example_booking ''pending-review'')
   \<and> getTourBookingStatus
        (bookings (snd (deleteReview (reviews world_reviewed) (bookings world_reviewed)
                          net_up ''r1'' world_reviewed))) ''t1''
       = Some ''pending-review''
   \<and> remote_bookings
        (snd (deleteReview (reviews world_reviewed) (bookings world_reviewed)
                net_up ''r1'' world_reviewed)) ''b1''
       = Some ''pending-review''"
proof -
  have rev: "find (\<lambda>r. review_id r = ''r1'') (userReviews (reviews world_reviewed))
     = Some example_review"
    by (simp add: example_defs)
  have found: "findBookingByTourId (bookings world_reviewed) (tour example_review)
       = Some (example_booking ''reviewed'')"
    by (simp add: example_defs findBookingByTourId_def)
  have reviewed: "status (example_booking ''reviewed'') = ''reviewed''"
    by (simp add: example_booking_def)
  have succ: "success (fst (deleteReview (reviews world_reviewed) (bookings world_reviewed)
                     net_up ''r1'' world_reviewed))"
    by (simp add: deleteReview_success [OF rev] net_up_def)
  have accepted: "remote_update_succeeds net_up ''b1'' ''pending-review'' world_reviewed"
    by (simp add: remote_update_succeeds_def example_defs)
  have b1: "booking_id (example_booking ''reviewed'') = ''b1''"
    by (simp add: example_booking_def)
  have t1: "tour example_review = ''t1''"
    by (simp add: example_review_def)
  have flipped: "(example_booking ''reviewed'')\<lparr>status := ''pending-review''\<rparr>
      = example_booking ''pending-review''"
    by (simp add: example_booking_def)
  show ?thesis
    using deleteReview_flips_booking [OF rev found reviewed succ] rev found reviewed succ accepted
    by (simp add: b1 t1 flipped)
qed

text \<open>
  C2 as stated fails, on the happy path. The user has booked tour \<^verbatim>\<open>t1\<close> twice: booking
  \<^verbatim>\<open>b1\<close> is \<^verbatim>\<open>'confirmed'\<close> and comes first in the cache, booking \<^verbatim>\<open>b2\<close> is \<^verbatim>\<open>'reviewed'\<close>,
  and review \<^verbatim>\<open>r1\<close> of the tour is cached. Every request is answered and the remote store
  would accept the status update of \<^verbatim>\<open>b2\<close>. \<^verbatim>\<open>deleteReview\<close> returns \<^verbatim>\<open>success: true\<close>, and
  afterwards the bookings cache is as before, no booking of the tour is
  \<^verbatim>\<open>'pending-review'\<close> in it, and in the remote store \<^verbatim>\<open>b2\<close> is still \<^verbatim>\<open>'reviewed'\<close>.
\<close>

theorem deleteReview_first_booking_only:
  "find (\<lambda>r. review_id r = ''r1'') (userReviews (reviews world_two_reviewed))
     = Some example_review
   \<and> second_booking ''reviewed'' \<in> set (userBookings (bookings world_two_reviewed))
   \<and> tourId (second_booking ''reviewed'') = tour example_review
   \<and> status (second_booking ''reviewed'') = ''reviewed''
   \<and> remote_update_succeeds net_up ''b2'' ''pending-review'' world_two_reviewed
   \<and> fst (deleteReview (reviews world_two_reviewed) (bookings world_two_reviewed)
             net_up ''r1'' world_two_reviewed) = ok
   \<and> userBookings
        (bookings (snd (deleteReview (reviews world_two_reviewed) (bookings world_two_reviewed)
                          net_up ''r1'' world_two_reviewed)))
       = [example_booking ''confirmed'', second_booking ''reviewed'']
   \<and> \<not> (\<exists>b \<in> set (userBookings
                (bookings (snd (deleteReview (reviews world_two_reviewed)
                                  (bookings world_two_reviewed) net_up ''r1''
                                  world_two_reviewed)))).
          tourId b = ''t1'' \<and> status b = ''pending-review'')
   \<and> remote_bookings
        (snd (deleteReview (reviews world_two_reviewed) (bookings world_two_reviewed)
                net_up ''r1'' world_two_reviewed)) ''b2''
       = Some ''reviewed''
   \<and> remote_bookings
        (snd (deleteReview (reviews world_two_reviewed) (bookings world_two_reviewed)
                net_up ''r1'' world_two_reviewed)) ''b1''
       = Some ''confirmed''"
  by (simp add: example_defs deleteReview_def run_defs ok_def)

section \<open>A failing booking-status update does not touch the review\<close>

text \<open>
  C3. Whatever the remote booking-status update answers (\<open>f\<close> and \<open>g\<close> are any answers,
  among them every failure): when the review create call itself succeeded with review
  \<open>r\<close>, \<^verbatim>\<open>createReview\<close> returns \<^verbatim>\<open>success: true\<close> with \<open>r\<close>, and \<open>r\<close> is in the user-reviews
  cache afterwards; when the review of id \<open>i\<close> is in the user-reviews cache and the review
  delete call itself succeeded, \<^verbatim>\<open>deleteReview\<close> returns \<^verbatim>\<open>success: true\<close> and no review
  of id \<open>i\<close> is in the user-reviews cache afterwards. Nothing is rolled back: the only
  create, update or delete call the operation sends to the remote review store is the
  primary one, and the only action it dispatches on the user's reviews is the one that
  adds, respectively removes, the review.
\<close>

theorem secondary_failure_isolated:
  "(post_review n d = Inr r \<and>
    createReview (reviews w) (bookings w) (n\<lparr>patch_booking_status := f\<rparr>) d w = (res, w')
    \<longrightarrow> res = \<lparr>success = True, error = None, review = Some r\<rparr>
        \<and> r \<in> set (userReviews (reviews w'))
        \<and> remote_review_writes w' = remote_review_writes w @ [call_createReview d]
        \<and> local_review_writes w' = local_review_writes w @ [addUserReview r])
   \<and> (find (\<lambda>x. review_id x = i) (userReviews (reviews w)) = Some x \<and>
       delete_review n i = None \<and>
       deleteReview (reviews w) (bookings w) (n\<lparr>patch_booking_status := g\<rparr>) i w = (res2, w2)
    \<longrightarrow> res2 = ok
        \<and> (\<forall>y \<in> set (userReviews (reviews w2)). review_id y \<noteq> i)
        \<and> remote_review_writes w2 = remote_review_writes w @ [call_deleteReview i]
        \<and> local_review_writes w2 = local_review_writes w @ [removeUserReview i])"
proof (rule conjI; rule impI)
  assume a: "post_review n d = Inr r \<and>
    createReview (reviews w) (bookings w) (n\<lparr>patch_booking_status := f\<rparr>) d w = (res, w')"
  then have p: "post_review (n\<lparr>patch_booking_status := f\<rparr>) d = Inr r" by simp
  from a have res: "res =
      fst (createReview (reviews w) (bookings w) (n\<lparr>patch_booking_status := f\<rparr>) d w)"
    and w': "w' =
      snd (createReview (reviews w) (bookings w) (n\<lparr>patch_booking_status := f\<rparr>) d w)"
    by simp_all
  show "res = \<lparr>success = True, error = None, review = Some r\<rparr>
        \<and> r \<in> set (userReviews (reviews w'))
        \<and> remote_review_writes w' = remote_review_writes w @ [call_createReview d]
        \<and> local_review_writes w' = local_review_writes w @ [addUserReview r]"
    unfolding res w' by (simp add: createReview_success [OF p] refresh_frame)
next
  assume a: "find (\<lambda>x. review_id x = i) (userReviews (reviews w)) = Some x \<and>
       delete_review n i = None \<and>
       deleteReview (reviews w) (bookings w) (n\<lparr>patch_booking_status := g\<rparr>) i w = (res2, w2)"
  then have rev: "find (\<lambda>x. review_id x = i) (userReviews (reviews w)) = Some x" by blast
  from a have p: "delete_review (n\<lparr>patch_booking_status := g\<rparr>) i = None" by simp
  from a have res: "res2 =
      fst (deleteReview (reviews w) (bookings w) (n\<lparr>patch_booking_status := g\<rparr>) i w)"
    and w2: "w2 =
      snd (deleteReview (reviews w) (bookings w) (n\<lparr>patch_booking_status := g\<rparr>) i w)"
    by simp_all
  have cache: "\<forall>y \<in> set (userReviews (reviews w2)). review_id y \<noteq> i"
    unfolding w2
    by (simp add: deleteReview_success [OF rev p] refresh_frame Let_def split: option.splits)
  have rest: "res2 = ok
        \<and> remote_review_writes w2 = remote_review_writes w @ [call_deleteReview i]
        \<and> local_review_writes w2 = local_review_writes w @ [removeUserReview i]"
    unfolding res w2
    by (simp add: deleteReview_success [OF rev p] Let_def)
  show "res2 = ok
        \<and> (\<forall>y \<in> set (userReviews (reviews w2)). review_id y \<noteq> i)
        \<and> remote_review_writes w2 = remote_review_writes w @ [call_deleteReview i]
        \<and> local_review_writes w2 = local_review_writes w @ [removeUserReview i]"
    using cache rest by blast
qed

text \<open>
  The theorem where the booking-status update is attempted and fails: the call is in the
  log, the result is a success, the review is in the cache after the creation and out of
  it after the deletion, and the primary call is the only write to the reviews.
\<close>

theorem secondary_failure_isolated_witness:
  "post_review net_up example_data = Inr example_review
   \<and> remote_status_writes (snd (createReview (reviews world_pending) (bookings world_pending)
                                  net_bookings_down example_data world_pending))
       = [call_updateBookingStatus ''b1'' ''reviewed'']
   \<and> fst (bookingsService_updateBookingStatus net_bookings_down ''b1'' ''reviewed'' world_pending)
       = Inl (BookingsError ''Network Error'')
   \<and> fst (createReview (reviews world_pending) (bookings world_pending)
             net_bookings_down example_data world_pending)
       = \<lparr>success = True, error = None, review = Some example_review\<rparr>
   \<and> example_review \<in> set (userReviews (reviews
         (snd (createReview (reviews world_pending) (bookings world_pending)
                 net_bookings_down example_data world_pending))))
   \<and> remote_review_writes (snd (createReview (reviews world_pending) (bookings world_pending)
                                  net_bookings_down example_data world_pending))
       = [call_createReview example_data]
   \<and> local_review_writes (snd (createReview (reviews world_pending) (bookings world_pending)
                                 net_bookings_down example_data world_pending))
       = [addUserReview example_review]
   \<and> find (\<lambda>x. review_id x = ''r1'') (userReviews (reviews world_reviewed)) = Some example_review
   \<and> delete_review net_up ''r1'' = None
   \<and> remote_status_writes (snd (deleteReview (reviews world_reviewed) (bookings world_reviewed)
                                  net_bookings_down ''r1'' world_reviewed))
       = [call_updateBookingStatus ''b1'' ''pending-review'']
   \<and> fst (deleteReview (reviews world_reviewed) (bookings world_reviewed)
             net_bookings_down ''r1'' world_reviewed) = ok
   \<and> list_all (\<lambda>y. review_id y \<noteq> ''r1'')
        (userReviews (reviews
          (snd (deleteReview (reviews world_reviewed) (bookings world_reviewed)
                  net_bookings_down ''r1'' world_reviewed))))
   \<and> remote_review_writes (snd (deleteReview (reviews world_reviewed) (bookings world_reviewed)
                                  net_bookings_down ''r1'' world_reviewed))
       = [call_deleteReview ''r1'']
   \<and> local_review_writes (snd (deleteReview (reviews world_reviewed) (bookings world_reviewed)
                                 net_bookings_down ''r1'' world_reviewed))
       = [removeUserReview ''r1'']"
proof -
  let ?f = "\<lambda>i st. Some (BookingsError ''Network Error'')"
  have down: "net_bookings_down = net_up\<lparr>patch_booking_status := ?f\<rparr>"
    by (simp add: net_bookings_down_def)
  have posted: "post_review net_up example_data = Inr example_review"
    by (simp add: net_up_def)
  have rev: "find (\<lambda>x. review_id x = ''r1'') (userReviews (reviews world_reviewed))
      = Some example_review"
    by (simp add: example_defs)
  have deleted: "delete_review net_up ''r1'' = None"
    by (simp add: net_up_def)
  have before: "remote_review_writes world_pending = []" "local_review_writes world_pending = []"
    "remote_review_writes world_reviewed = []" "local_review_writes world_reviewed = []"
    by (simp_all add: example_defs remote_review_writes_def local_review_writes_def)
  have attempted: "remote_status_writes
        (snd (createReview (reviews world_pending) (bookings world_pending)
                net_bookings_down example_data world_pending))
       = [call_updateBookingStatus ''b1'' ''reviewed'']"
    by (simp add: example_defs createReview_def run_defs remote_status_writes_def)
  have attempted2: "remote_status_writes
        (snd (deleteReview (reviews world_reviewed) (bookings world_reviewed)
                net_bookings_down ''r1'' world_reviewed))
       = [call_updateBookingStatus ''b1'' ''pending-review'']"
    by (simp add: example_defs deleteReview_def run_defs remote_status_writes_def)
  have rejected: "fst (bookingsService_updateBookingStatus net_bookings_down ''b1'' ''reviewed''
                         world_pending) = Inl (BookingsError ''Network Error'')"
    by (simp add: bookingsService_updateBookingStatus_def net_bookings_down_def net_up_def)
  have c: "fst (createReview (reviews world_pending) (bookings world_pending)
                  net_bookings_down example_data world_pending)
             = \<lparr>success = True, error = None, review = Some example_review\<rparr>
           \<and> example_review \<in> set (userReviews (reviews
               (snd (createReview (reviews world_pending) (bookings world_pending)
                       net_bookings_down example_data world_pending))))
           \<and> remote_review_writes
               (snd (createReview (reviews world_pending) (bookings world_pending)
                       net_bookings_down example_data world_pending))
               = [call_createReview example_data]
           \<and> local_review_writes
               (snd (createReview (reviews world_pending) (bookings world_pending)
                       net_bookings_down example_data world_pending))
               = [addUserReview example_review]"
    using secondary_failure_isolated
      [where n = net_up and d = example_data and r = example_review and w = world_pending
         and f = ?f
         and res = "fst (createReview (reviews world_pending) (bookings world_pending)
                           net_bookings_down example_data world_pending)"
         and w' = "snd (createReview (reviews world_pending) (bookings world_pending)
                           net_bookings_down example_data world_pending)",
       THEN conjunct1]
      posted
    by (simp add: down before)
  have d: "fst (deleteReview (reviews world_reviewed) (bookings world_reviewed)
                  net_bookings_down ''r1'' world_reviewed) = ok
           \<and> list_all (\<lambda>y. review_id y \<noteq> ''r1'')
                (userReviews (reviews
                  (snd (deleteReview (reviews world_reviewed) (bookings world_reviewed)
                          net_bookings_down ''r1'' world_reviewed))))
           \<and> remote_review_writes
               (snd (deleteReview (reviews world_reviewed) (bookings world_reviewed)
                       net_bookings_down ''r1'' world_reviewed))
               = [call_deleteReview ''r1'']
           \<and> local_review_writes
               (snd (deleteReview (reviews world_reviewed) (bookings world_reviewed)
                       net_bookings_down ''r1'' world_reviewed))
               = [removeUserReview ''r1'']"
    using secondary_failure_isolated
      [where n = net_up and i = "''r1''" and x = example_review and w = world_reviewed
         and g = ?f
         and ?res2.0 = "fst (deleteReview (reviews world_reviewed) (bookings world_reviewed)
                           net_bookings_down ''r1'' world_reviewed)"
         and ?w2.0 = "snd (deleteReview (reviews world_reviewed) (bookings world_reviewed)
                           net_bookings_down ''r1'' world_reviewed)",
       THEN conjunct2]
      rev deleted
    by (simp add: down before list_all_iff)
  show ?thesis
    using posted rev deleted attempted attempted2 rejected c d by blast
qed

section \<open>Deleting a review that cannot be deleted\<close>

text \<open>
  C4. When no review of id \<open>i\<close> is in the user-reviews cache, \<^verbatim>\<open>deleteReview\<close> fails with
  the error \<^verbatim>\<open>'Review not found in local state'\<close>, makes no remote call, and leaves the
  bookings slice and the remote store as they were; the reviews slice differs from the
  one before only in its error message and its submitting flag, so \<^verbatim>\<open>tourReviews\<close>,
  \<^verbatim>\<open>userReviews\<close> and \<^verbatim>\<open>currentReview\<close> are unchanged. When the review is in the cache and
  the remote deletion fails, the operation fails with the message of that failure; the
  only remote call made is the deletion, and the local state is unchanged in the same
  sense.
\<close>

theorem deleteReview_aborts_unchanged:
  "(find (\<lambda>x. review_id x = i) (userReviews (reviews w)) = None \<and>
    deleteReview (reviews w) (bookings w) n i w = (res, w')
    \<longrightarrow> res = failed ''Review not found in local state''
        \<and> remote_calls w' = remote_calls w
        \<and> remote_bookings w' = remote_bookings w
        \<and> bookings w' = bookings w
        \<and> reviews w' = (reviews w)\<lparr>reviews_error := Some ''Review not found in local state'',
                                    reviews_isSubmitting := False\<rparr>)
   \<and> (find (\<lambda>x. review_id x = i) (userReviews (reviews w)) = Some x \<and>
       delete_review n i = Some e \<and>
       deleteReview (reviews w) (bookings w) n i w = (res, w')
    \<longrightarrow> res = failed (reviewsErrorMessage (transformReviewsError e)
                        ''Failed to delete review. Please try again.'')
        \<and> remote_calls w' = remote_calls w @ [call_deleteReview i]
        \<and> remote_bookings w' = remote_bookings w
        \<and> bookings w' = bookings w
        \<and> reviews w' =
            (reviews w)\<lparr>reviews_error :=
                          Some (reviewsErrorMessage (transformReviewsError e)
                                  ''Failed to delete review. Please try again.''),
                        reviews_isSubmitting := False\<rparr>)"
proof (rule conjI; rule impI)
  assume a: "find (\<lambda>x. review_id x = i) (userReviews (reviews w)) = None \<and>
    deleteReview (reviews w) (bookings w) n i w = (res, w')"
  then have none: "find (\<lambda>x. review_id x = i) (userReviews (reviews w)) = None"
    and run: "deleteReview (reviews w) (bookings w) n i w = (res, w')"
    by blast+
  have eq: "(res, w') = submitFailed ''Review not found in local state''
       (dispatch reviews_clearError (dispatch (reviews_setSubmitting True) w))"
    using deleteReview_not_found [OF none, of "bookings w" n w] run by simp
  then have r: "res = fst (submitFailed ''Review not found in local state''
       (dispatch reviews_clearError (dispatch (reviews_setSubmitting True) w)))"
    and w: "w' = snd (submitFailed ''Review not found in local state''
       (dispatch reviews_clearError (dispatch (reviews_setSubmitting True) w)))"
    by (metis fst_conv, metis snd_conv)
  show "res = failed ''Review not found in local state''
        \<and> remote_calls w' = remote_calls w
        \<and> remote_bookings w' = remote_bookings w
        \<and> bookings w' = bookings w
        \<and> reviews w' = (reviews w)\<lparr>reviews_error := Some ''Review not found in local state'',
                                    reviews_isSubmitting := False\<rparr>"
    unfolding r w by simp
next
  assume a: "find (\<lambda>x. review_id x = i) (userReviews (reviews w)) = Some x \<and>
       delete_review n i = Some e \<and>
       deleteReview (reviews w) (bookings w) n i w = (res, w')"
  define m where "m = reviewsErrorMessage (transformReviewsError e)
                        ''Failed to delete review. Please try again.''"
  from a have some: "find (\<lambda>x. review_id x = i) (userReviews (reviews w)) = Some x"
    and fails: "delete_review n i = Some e"
    and run: "deleteReview (reviews w) (bookings w) n i w = (res, w')"
    by blast+
  have eq: "(res, w') = submitFailed m
       (called (call_deleteReview i)
          (dispatch reviews_clearError (dispatch (reviews_setSubmitting True) w)))"
    using deleteReview_failure [OF some fails, of "bookings w" w] run by (simp add: m_def)
  then have r: "res = fst (submitFailed m
       (called (call_deleteReview i)
          (dispatch reviews_clearError (dispatch (reviews_setSubmitting True) w))))"
    and w: "w' = snd (submitFailed m
       (called (call_deleteReview i)
          (dispatch reviews_clearError (dispatch (reviews_setSubmitting True) w))))"
    by (metis fst_conv, metis snd_conv)
  show "res = failed (reviewsErrorMessage (transformReviewsError e)
                        ''Failed to delete review. Please try again.'')
        \<and> remote_calls w' = remote_calls w @ [call_deleteReview i]
        \<and> remote_bookings w' = remote_bookings w
        \<and> bookings w' = bookings w
        \<and> reviews w' =
            (reviews w)\<lparr>reviews_error :=
                          Some (reviewsErrorMessage (transformReviewsError e)
                                  ''Failed to delete review. Please try again.''),
                        reviews_isSubmitting := False\<rparr>"
    unfolding r w m_def [symmetric] by simp
qed

text \<open>
  The theorem at a store without reviews (review \<^verbatim>\<open>r1\<close> is not found), and at a store
  with review \<^verbatim>\<open>r1\<close> when every request fails.
\<close>

theorem deleteReview_aborts_unchanged_witness:
  "find (\<lambda>x. review_id x = ''r1'') (userReviews (reviews world_pending)) = None
   \<and> fst (deleteReview (reviews world_pending) (bookings world_pending) net_up ''r1''
            world_pending) = failed ''Review not found in local state''
   \<and> remote_calls (snd (deleteReview (reviews world_pending) (bookings world_pending) net_up
                          ''r1'' world_pending)) = remote_calls world_pending
   \<and> bookings (snd (deleteReview (reviews world_pending) (bookings world_pending) net_up
                       ''r1'' world_pending)) = bookings world_pending
   \<and> userReviews (reviews (snd (deleteReview (reviews world_pending) (bookings world_pending)
                                   net_up ''r1'' world_pending)))
       = userReviews (reviews world_pending)
   \<and> find (\<lambda>x. review_id x = ''r1'') (userReviews (reviews world_reviewed)) = Some example_review
   \<and> delete_review net_down ''r1'' = Some network_error
   \<and> fst (deleteReview (reviews world_reviewed) (bookings world_reviewed) net_down ''r1''
            world_reviewed) = failed ''Network Error''
   \<and> remote_calls (snd (deleteReview (reviews world_reviewed) (bookings world_reviewed)
                          net_down ''r1'' world_reviewed))
       = remote_calls world_reviewed @ [call_deleteReview ''r1'']
   \<and> bookings (snd (deleteReview (reviews world_reviewed) (bookings world_reviewed) net_down
                       ''r1'' world_reviewed)) = bookings world_reviewed
   \<and> userReviews (reviews (snd (deleteReview (reviews world_reviewed) (bookings world_reviewed)
                                   net_down ''r1'' world_reviewed)))
       = userReviews (reviews world_reviewed)"
proof -
  have none: "find (\<lambda>x. review_id x = ''r1'') (userReviews (reviews world_pending)) = None"
    by (simp add: example_defs)
  have some: "find (\<lambda>x. review_id x = ''r1'') (userReviews (reviews world_reviewed))
      = Some example_review"
    by (simp add: example_defs)
  have fails: "delete_review net_down ''r1'' = Some network_error"
    by (simp add: net_down_def)
  have msg: "reviewsErrorMessage (transformReviewsError network_error)
               ''Failed to delete review. Please try again.'' = ''Network Error''"
    by (simp add: transformReviewsError_def network_error_def)
  have a: "fst (deleteReview (reviews world_pending) (bookings world_pending) net_up ''r1''
              world_pending) = failed ''Review not found in local state''
     \<and> remote_calls (snd (deleteReview (reviews world_pending) (bookings world_pending) net_up
                          ''r1'' world_pending)) = remote_calls world_pending
     \<and> bookings (snd (deleteReview (reviews world_pending) (bookings world_pending) net_up
                       ''r1'' world_pending)) = bookings world_pending
     \<and> userReviews (reviews (snd (deleteReview (reviews world_pending) (bookings world_pending)
                                   net_up ''r1'' world_pending)))
       = userReviews (reviews world_pending)"
    using deleteReview_aborts_unchanged
      [where i = "''r1''" and w = world_pending and n = net_up
         and res = "fst (deleteReview (reviews world_pending) (bookings world_pending) net_up
                           ''r1'' world_pending)"
         and w' = "snd (deleteReview (reviews world_pending) (bookings world_pending) net_up
                           ''r1'' world_pending)",
       THEN conjunct1]
      none
    by simp
  have b: "fst (deleteReview (reviews world_reviewed) (bookings world_reviewed) net_down ''r1''
            world_reviewed) = failed ''Network Error''
     \<and> remote_calls (snd (deleteReview (reviews world_reviewed) (bookings world_reviewed)
                          net_down ''r1'' world_reviewed))
       = remote_calls world_reviewed @ [call_deleteReview ''r1'']
     \<and> bookings (snd (deleteReview (reviews world_reviewed) (bookings world_reviewed) net_down
                       ''r1'' world_reviewed)) = bookings world_reviewed
     \<and> userReviews (reviews (snd (deleteReview (reviews world_reviewed) (bookings world_reviewed)
                                   net_down ''r1'' world_reviewed)))
       = userReviews (reviews world_reviewed)"
    using deleteReview_aborts_unchanged
      [where i = "''r1''" and w = world_reviewed and n = net_down and x = example_review
         and e = network_error
         and res = "fst (deleteReview (reviews world_reviewed) (bookings world_reviewed) net_down
                           ''r1'' world_reviewed)"
         and w' = "snd (deleteReview (reviews world_reviewed) (bookings world_reviewed) net_down
                           ''r1'' world_reviewed)",
       THEN conjunct2]
      some fails
    by (simp add: msg)
  show ?thesis using none some fails a b by blast
qed

section \<open>When no booking-status write is issued\<close>

text \<open>
  C5. Let the hook be rendered from the store of \<open>w\<close>. When \<^verbatim>\<open>findBookingByTourId\<close> finds
  no booking for the tour of the new review, \<^verbatim>\<open>createReview\<close> issues no booking-status
  write, neither to the local cache nor to the remote store, the bookings slice and
  the remote statuses are as before, and whenever the review create call itself succeeds
  the result is \<^verbatim>\<open>success: true\<close> without an error. The same holds of \<^verbatim>\<open>deleteReview\<close>
  for a cached review whose tour has no booking.
\<close>

theorem no_booking_no_status_write:
  "(findBookingByTourId (bookings w) (data_tour d) = None \<and>
    createReview (reviews w) (bookings w) n d w = (res, w')
    \<longrightarrow> local_status_writes w' = local_status_writes w
        \<and> remote_status_writes w' = remote_status_writes w
        \<and> bookings w' = bookings w
        \<and> remote_bookings w' = remote_bookings w
        \<and> (\<forall>r. post_review n d = Inr r \<longrightarrow>
              res = \<lparr>success = True, error = None, review = Some r\<rparr>))
   \<and> (find (\<lambda>x. review_id x = i) (userReviews (reviews w)) = Some x \<and>
       findBookingByTourId (bookings w) (tour x) = None \<and>
       deleteReview (reviews w) (bookings w) n i w = (res2, w2)
    \<longrightarrow> local_status_writes w2 = local_status_writes w
        \<and> remote_status_writes w2 = remote_status_writes w
        \<and> bookings w2 = bookings w
        \<and> remote_bookings w2 = remote_bookings w
        \<and> (delete_review n i = None \<longrightarrow> res2 = ok))"
proof (rule conjI; rule impI)
  assume a: "findBookingByTourId (bookings w) (data_tour d) = None \<and>
    createReview (reviews w) (bookings w) n d w = (res, w')"
  then have none: "findBookingByTourId (bookings w) (data_tour d) = None"
    and run: "createReview (reviews w) (bookings w) n d w = (res, w')"
    by blast+
  from run have r: "res = fst (createReview (reviews w) (bookings w) n d w)"
    and w: "w' = snd (createReview (reviews w) (bookings w) n d w)" by simp_all
  show "local_status_writes w' = local_status_writes w
        \<and> remote_status_writes w' = remote_status_writes w
        \<and> bookings w' = bookings w
        \<and> remote_bookings w' = remote_bookings w
        \<and> (\<forall>r. post_review n d = Inr r \<longrightarrow>
              res = \<lparr>success = True, error = None, review = Some r\<rparr>)"
  proof (cases "post_review n d")
    case (Inl e)
    show ?thesis unfolding r w by (simp add: createReview_failure [OF Inl] Inl)
  next
    case (Inr y)
    show ?thesis unfolding r w
      by (simp add: createReview_success [OF Inr] Inr refresh_frame coordinate_none [OF none])
  qed
next
  assume a: "find (\<lambda>x. review_id x = i) (userReviews (reviews w)) = Some x \<and>
       findBookingByTourId (bookings w) (tour x) = None \<and>
       deleteReview (reviews w) (bookings w) n i w = (res2, w2)"
  then have rev: "find (\<lambda>x. review_id x = i) (userReviews (reviews w)) = Some x"
    and none: "findBookingByTourId (bookings w) (tour x) = None"
    and run: "deleteReview (reviews w) (bookings w) n i w = (res2, w2)"
    by blast+
  from run have r: "res2 = fst (deleteReview (reviews w) (bookings w) n i w)"
    and w: "w2 = snd (deleteReview (reviews w) (bookings w) n i w)" by simp_all
  show "local_status_writes w2 = local_status_writes w
        \<and> remote_status_writes w2 = remote_status_writes w
        \<and> bookings w2 = bookings w
        \<and> remote_bookings w2 = remote_bookings w
        \<and> (delete_review n i = None \<longrightarrow> res2 = ok)"
  proof (cases "delete_review n i")
    case (Some e)
    show ?thesis unfolding r w by (simp add: deleteReview_failure [OF rev Some] Some)
  next
    case None
    show ?thesis unfolding r w
      by (simp add: deleteReview_success [OF rev None] None refresh_frame Let_def
            after_clearCurrent_frame coordinate_none [OF none])
  qed
qed

text \<open>
  The theorem at a store with review \<^verbatim>\<open>r1\<close> of tour \<^verbatim>\<open>t1\<close> and no booking, every request
  answered.
\<close>

theorem no_booking_no_status_write_witness:
  "findBookingByTourId (bookings world_unbooked) (data_tour example_data) = None
   \<and> post_review net_up example_data = Inr example_review
   \<and> local_status_writes (snd (createReview (reviews world_unbooked) (bookings world_unbooked)
                                 net_up example_data world_unbooked))
       = local_status_writes world_unbooked
   \<and> remote_status_writes (snd (createReview (reviews world_unbooked) (bookings world_unbooked)
                                  net_up example_data world_unbooked))
       = remote_status_writes world_unbooked
   \<and> fst (createReview (reviews world_unbooked) (bookings world_unbooked) net_up example_data
            world_unbooked) = \<lparr>success = True, error = None, review = Some example_review\<rparr>
   \<and> find (\<lambda>x. review_id x = ''r1'') (userReviews (reviews world_unbooked)) = Some example_review
   \<and> findBookingByTourId (bookings world_unbooked) (tour example_review) = None
   \<and> delete_review net_up ''r1'' = None
   \<and> local_status_writes (snd (deleteReview (reviews world_unbooked) (bookings world_unbooked)
                                 net_up ''r1'' world_unbooked))
       = local_status_writes world_unbooked
   \<and> remote_status_writes (snd (deleteReview (reviews world_unbooked) (bookings world_unbooked)
                                  net_up ''r1'' world_unbooked))
       = remote_status_writes world_unbooked
   \<and> fst (deleteReview (reviews world_unbooked) (bookings world_unbooked) net_up ''r1''
            world_unbooked) = ok"
proof -
  have none: "findBookingByTourId (bookings world_unbooked) (data_tour example_data) = None"
    by (simp add: example_defs findBookingByTourId_def)
  have none2: "findBookingByTourId (bookings world_unbooked) (tour example_review) = None"
    by (simp add: example_defs findBookingByTourId_def)
  have posted: "post_review net_up example_data = Inr example_review"
    by (simp add: net_up_def)
  have rev: "find (\<lambda>x. review_id x = ''r1'') (userReviews (reviews world_unbooked))
      = Some example_review"
    by (simp add: example_defs)
  have deleted: "delete_review net_up ''r1'' = None"
    by (simp add: net_up_def)
  have a: "local_status_writes (snd (createReview (reviews world_unbooked)
                (bookings world_unbooked) net_up example_data world_unbooked))
       = local_status_writes world_unbooked
     \<and> remote_status_writes (snd (createReview (reviews world_unbooked)
                (bookings world_unbooked) net_up example_data world_unbooked))
       = remote_status_writes world_unbooked
     \<and> fst (createReview (reviews world_unbooked) (bookings world_unbooked) net_up example_data
            world_unbooked) = \<lparr>success = True, error = None, review = Some example_review\<rparr>"
    using no_booking_no_status_write
      [where w = world_unbooked and d = example_data and n = net_up
         and res = "fst (createReview (reviews world_unbooked) (bookings world_unbooked) net_up
                           example_data world_unbooked)"
         and w' = "snd (createReview (reviews world_unbooked) (bookings world_unbooked) net_up
                           example_data world_unbooked)",
       THEN conjunct1]
      none posted
    by simp
  have b: "local_status_writes (snd (deleteReview (reviews world_unbooked)
                (bookings world_unbooked) net_up ''r1'' world_unbooked))
       = local_status_writes world_unbooked
     \<and> remote_status_writes (snd (deleteReview (reviews world_unbooked)
                (bookings world_unbooked) net_up ''r1'' world_unbooked))
       = remote_status_writes world_unbooked
     \<and> fst (deleteReview (reviews world_unbooked) (bookings world_unbooked) net_up ''r1''
            world_unbooked) = ok"
    using no_booking_no_status_write
      [where w = world_unbooked and i = "''r1''" and n = net_up and x = example_review
         and ?res2.0 = "fst (deleteReview (reviews world_unbooked) (bookings world_unbooked)
                           net_up ''r1'' world_unbooked)"
         and ?w2.0 = "snd (deleteReview (reviews world_unbooked) (bookings world_unbooked)
                           net_up ''r1'' world_unbooked)",
       THEN conjunct2]
      rev none2 deleted
    by simp
  show ?thesis using none none2 posted rev deleted a b by blast
qed

text \<open>
  C6. Let the hook be rendered from the store of \<open>w\<close>. When the booking that
  \<^verbatim>\<open>findBookingByTourId\<close> finds for the tour of the new review has a status other than
  \<^verbatim>\<open>'pending-review'\<close>, \<^verbatim>\<open>createReview\<close> issues no booking-status write, neither to the
  local cache nor to the remote store, and the bookings slice and the remote statuses
  are as before.
\<close>

theorem createReview_guarded:
  assumes found: "findBookingByTourId (bookings w) (data_tour d) = Some b"
      and other: "status b \<noteq> ''pending-review''"
      and run: "createReview (reviews w) (bookings w) n d w = (res, w')"
  shows "local_status_writes w' = local_status_writes w
       \<and> remote_status_writes w' = remote_status_writes w
       \<and> bookings w' = bookings w
       \<and> remote_bookings w' = remote_bookings w"
proof -
  from run have w: "w' = snd (createReview (reviews w) (bookings w) n d w)" by simp
  show ?thesis
  proof (cases "post_review n d")
    case (Inl e)
    show ?thesis unfolding w by (simp add: createReview_failure [OF Inl])
  next
    case (Inr r)
    show ?thesis unfolding w
      by (simp add: createReview_success [OF Inr] refresh_frame coordinate_other [OF found other])
  qed
qed

text \<open>
  The theorem at the store whose booking \<^verbatim>\<open>b1\<close> is already \<^verbatim>\<open>'reviewed'\<close>.
\<close>

theorem createReview_guarded_witness:
  "findBookingByTourId (bookings world_reviewed) (data_tour example_data)
     = Some (example_booking ''reviewed'')
   \<and> status (example_booking ''reviewed'') \<noteq> ''pending-review''
   \<and> local_status_writes (snd (createReview (reviews world_reviewed) (bookings world_reviewed)
                                 net_up example_data world_reviewed))
       = local_status_writes world_reviewed
   \<and> remote_status_writes (snd (createReview (reviews world_reviewed) (bookings world_reviewed)
                                  net_up example_data world_reviewed))
       = remote_status_writes world_reviewed
   \<and> bookings (snd (createReview (reviews world_reviewed) (bookings world_reviewed)
                      net_up example_data world_reviewed)) = bookings world_reviewed
   \<and> remote_bookings (snd (createReview (reviews world_reviewed) (bookings world_reviewed)
                             net_up example_data world_reviewed))
       = remote_bookings world_reviewed"
proof -
  have found: "findBookingByTourId (bookings world_reviewed) (data_tour example_data)
     = Some (example_booking ''reviewed'')"
    by (simp add: example_defs findBookingByTourId_def)
  have other: "status (example_booking ''reviewed'') \<noteq> ''pending-review''"
    by (simp add: example_booking_def)
  have run: "createReview (reviews world_reviewed) (bookings world_reviewed) net_up example_data
               world_reviewed
     = (fst (createReview (reviews world_reviewed) (bookings world_reviewed) net_up example_data
               world_reviewed),
        snd (createReview (reviews world_reviewed) (bookings world_reviewed) net_up example_data
               world_reviewed))"
    by simp
  show ?thesis
    using createReview_guarded [OF found other run] found other by blast
qed

text \<open>
  C7. Let the hook be rendered from the store of \<open>w\<close>. \<^verbatim>\<open>updateReview\<close> first sends the
  update to the remote review store; it leaves the bookings slice as it was, so the status
  of every cached booking is unchanged; it issues no booking-status write, local or
  remote, and the remote statuses are as before. When the remote update succeeds with
  review \<open>r\<close>, the result is \<^verbatim>\<open>success: true\<close> with \<open>r\<close>, and in the user-reviews cache
  the review of that id is replaced by \<open>r\<close>.
\<close>

theorem updateReview_leaves_bookings:
  assumes run: "updateReview (reviews w) n i u w = (res, w')"
  shows "bookings w' = bookings w
       \<and> remote_bookings w' = remote_bookings w
       \<and> local_status_writes w' = local_status_writes w
       \<and> remote_status_writes w' = remote_status_writes w
       \<and> take (Suc (length (remote_calls w))) (remote_calls w') =
           remote_calls w @ [call_updateReview i u]
       \<and> (\<forall>r. patch_review n i u = Inr r \<longrightarrow>
             res = \<lparr>success = True, error = None, review = Some r\<rparr>
           \<and> userReviews (reviews w') =
               map (\<lambda>x. if review_id x = review_id r then r else x) (userReviews (reviews w)))"
proof -
  from run have r: "res = fst (updateReview (reviews w) n i u w)"
    and w: "w' = snd (updateReview (reviews w) n i u w)" by simp_all
  show ?thesis
  proof (cases "patch_review n i u")
    case (Inl e)
    show ?thesis unfolding r w by (simp add: updateReview_failure [OF Inl] Inl)
  next
    case (Inr x)
    define w3 where "w3 =
       (let w2 = dispatch (updateUserReview x)
                       (called (call_updateReview i u)
                          (dispatch reviews_clearError (dispatch (reviews_setSubmitting True) w)))
            in case currentReview (reviews w) of
                 None \<Rightarrow> w2
               | Some c \<Rightarrow> if review_id c = i then dispatch (setCurrentReview x) w2 else w2)"
    have calls3: "remote_calls w3 = remote_calls w @ [call_updateReview i u]"
      by (simp add: w3_def Let_def after_setCurrent_frame)
    have "take (length (remote_calls w3))
            (remote_calls (refreshLoadedTourReviews (reviews w) n (tour x) w3)) = remote_calls w3"
      by (rule refresh_calls)
    then have calls: "take (Suc (length (remote_calls w)))
            (remote_calls (refreshLoadedTourReviews (reviews w) n (tour x) w3)) =
          remote_calls w @ [call_updateReview i u]"
      by (simp add: calls3)
    have eq: "updateReview (reviews w) n i u w =
       (\<lparr>success = True, error = None, review = Some x\<rparr>,
        dispatch (reviews_setSubmitting False)
          (refreshLoadedTourReviews (reviews w) n (tour x) w3))"
      by (simp add: updateReview_success [OF Inr] w3_def)
    have frame3: "bookings w3 = bookings w" "remote_bookings w3 = remote_bookings w"
      "local_status_writes w3 = local_status_writes w"
      "remote_status_writes w3 = remote_status_writes w"
      "userReviews (reviews w3) =
         map (\<lambda>y. if review_id y = review_id x then x else y) (userReviews (reviews w))"
      by (simp_all add: w3_def Let_def after_setCurrent_frame)
    show ?thesis unfolding r w eq
      by (simp add: Inr refresh_frame calls frame3)
  qed
qed

text \<open>
  The theorem at the store with review \<^verbatim>\<open>r1\<close> and booking \<^verbatim>\<open>b1\<close> \<^verbatim>\<open>'reviewed'\<close>, every
  request answered.
\<close>

theorem updateReview_leaves_bookings_witness:
  "patch_review net_up ''r1'' example_update = Inr example_review
   \<and> bookings (snd (updateReview (reviews world_reviewed) net_up ''r1'' example_update
                      world_reviewed)) = bookings world_reviewed
   \<and> remote_bookings (snd (updateReview (reviews world_reviewed) net_up ''r1'' example_update
                             world_reviewed)) = remote_bookings world_reviewed
   \<and> local_status_writes (snd (updateReview (reviews world_reviewed) net_up ''r1''
                                 example_update world_reviewed))
       = local_status_writes world_reviewed
   \<and> remote_status_writes (snd (updateReview (reviews world_reviewed) net_up ''r1''
                                  example_update world_reviewed))
       = remote_status_writes world_reviewed
   \<and> fst (updateReview (reviews world_reviewed) net_up ''r1'' example_update world_reviewed)
       = \<lparr>success = True, error = None, review = Some example_review\<rparr>"
proof -
  have patched: "patch_review net_up ''r1'' example_update = Inr example_review"
    by (simp add: net_up_def)
  have run: "updateReview (reviews world_reviewed) net_up ''r1'' example_update world_reviewed
     = (fst (updateReview (reviews world_reviewed) net_up ''r1'' example_update world_reviewed),
        snd (updateReview (reviews world_reviewed) net_up ''r1'' example_update world_reviewed))"
    by simp
  show ?thesis
    using updateReview_leaves_bookings [OF run] patched by blast
qed

section \<open>Results instead of exceptions\<close>

text \<open>
  C8. Each of \<^verbatim>\<open>createReview\<close>, \<^verbatim>\<open>updateReview\<close>, \<^verbatim>\<open>deleteReview\<close>, \<^verbatim>\<open>loadTourReviews\<close> and
  \<^verbatim>\<open>loadUserReviews\<close> returns, for every input, a result whose \<^verbatim>\<open>success\<close> is true exactly
  when it carries no \<^verbatim>\<open>error\<close>. When the primary remote call fails (and, for
  \<^verbatim>\<open>deleteReview\<close>, also when the review is not in the cache), the result is
  \<^verbatim>\<open>{ success: false, error }\<close> with the message of the failure. The exceptions of the
  services are values of the model, and every one of them ends in such a result.
\<close>

theorem operations_return_results:
  "(success (fst (createReview rs bs n d w)) \<longleftrightarrow> error (fst (createReview rs bs n d w)) = None)
   \<and> (\<forall>e. post_review n d = Inl e \<longrightarrow>
          fst (createReview rs bs n d w) =
            failed (reviewsErrorMessage (transformReviewsError e)
                      ''Failed to create review. Please try again.''))
   \<and> (success (fst (updateReview rs n i u w)) \<longleftrightarrow> error (fst (updateReview rs n i u w)) = None)
   \<and> (\<forall>e. patch_review n i u = Inl e \<longrightarrow>
          fst (updateReview rs n i u w) =
            failed (reviewsErrorMessage (transformReviewsError e)
                      ''Failed to update review. Please try again.''))
   \<and> (success (fst (deleteReview rs bs n i w)) \<longleftrightarrow> error (fst (deleteReview rs bs n i w)) = None)
   \<and> (find (\<lambda>r. review_id r = i) (userReviews rs) = None \<longrightarrow>
          fst (deleteReview rs bs n i w) = failed ''Review not found in local state'')
   \<and> (\<forall>e. find (\<lambda>r. review_id r = i) (userReviews rs) \<noteq> None \<and> delete_review n i = Some e \<longrightarrow>
          fst (deleteReview rs bs n i w) =
            failed (reviewsErrorMessage (transformReviewsError e)
                      ''Failed to delete review. Please try again.''))
   \<and> (success (fst (loadTourReviews rs n t w)) \<longleftrightarrow> error (fst (loadTourReviews rs n t w)) = None)
   \<and> (\<forall>e. (tourReviews rs t = None \<or> tourReviews rs t = Some []) \<and> get_tour_reviews n t = Inl e
        \<longrightarrow> fst (loadTourReviews rs n t w) =
            failed (reviewsErrorMessage (transformReviewsError e)
                      ''Failed to load reviews. Please try again.''))
   \<and> (success (fst (loadUserReviews n w)) \<longleftrightarrow> error (fst (loadUserReviews n w)) = None)
   \<and> (\<forall>e. get_my_reviews n = Inl e \<longrightarrow>
          fst (loadUserReviews n w) =
            failed (reviewsErrorMessage (transformReviewsError e)
                      ''Failed to load your reviews. Please try again.''))"
proof -
  have c: "\<forall>e. post_review n d = Inl e \<longrightarrow>
          fst (createReview rs bs n d w) =
            failed (reviewsErrorMessage (transformReviewsError e)
                      ''Failed to create review. Please try again.'')"
    by (simp add: createReview_failure)
  have u: "\<forall>e. patch_review n i u = Inl e \<longrightarrow>
          fst (updateReview rs n i u w) =
            failed (reviewsErrorMessage (transformReviewsError e)
                      ''Failed to update review. Please try again.'')"
    by (simp add: updateReview_failure)
  have d0: "find (\<lambda>r. review_id r = i) (userReviews rs) = None \<longrightarrow>
          fst (deleteReview rs bs n i w) = failed ''Review not found in local state''"
    using deleteReview_not_found [of i rs bs n w] by simp
  have d1: "\<forall>e. find (\<lambda>r. review_id r = i) (userReviews rs) \<noteq> None \<and> delete_review n i = Some e
      \<longrightarrow> fst (deleteReview rs bs n i w) =
            failed (reviewsErrorMessage (transformReviewsError e)
                      ''Failed to delete review. Please try again.'')"
  proof (intro allI impI)
    fix e
    assume a: "find (\<lambda>r. review_id r = i) (userReviews rs) \<noteq> None \<and> delete_review n i = Some e"
    then obtain x where x: "find (\<lambda>r. review_id r = i) (userReviews rs) = Some x" by blast
    from a have e: "delete_review n i = Some e" by blast
    show "fst (deleteReview rs bs n i w) =
            failed (reviewsErrorMessage (transformReviewsError e)
                      ''Failed to delete review. Please try again.'')"
      by (simp add: deleteReview_failure [OF x e])
  qed
  have l: "\<forall>e. (tourReviews rs t = None \<or> tourReviews rs t = Some []) \<and> get_tour_reviews n t = Inl e
      \<longrightarrow> fst (loadTourReviews rs n t w) =
            failed (reviewsErrorMessage (transformReviewsError e)
                      ''Failed to load reviews. Please try again.'')"
    by (auto intro!: loadTourReviews_failure)
  have m: "\<forall>e. get_my_reviews n = Inl e \<longrightarrow>
          fst (loadUserReviews n w) =
            failed (reviewsErrorMessage (transformReviewsError e)
                      ''Failed to load your reviews. Please try again.'')"
    by (simp add: loadUserReviews_failure)
  show ?thesis
    using c u d0 d1 l m createReview_structured [of rs bs n d w]
      updateReview_structured [of rs n i u w] deleteReview_structured [of rs bs n i w]
      loadTourReviews_structured [of rs n t w] loadUserReviews_structured [of n w]
    by blast
qed

text \<open>
  The theorem when every request fails with a network error: each operation returns
  \<^verbatim>\<open>{ success: false, error: 'Network Error' }\<close>; and \<^verbatim>\<open>deleteReview\<close> of a review that is not
  cached returns the not-found failure.
\<close>

theorem operations_return_results_witness:
  "post_review net_down example_data = Inl network_error
   \<and> fst (createReview (reviews world_reviewed) (bookings world_reviewed) net_down example_data
            world_reviewed) = failed ''Network Error''
   \<and> patch_review net_down ''r1'' example_update = Inl network_error
   \<and> fst (updateReview (reviews world_reviewed) net_down ''r1'' example_update world_reviewed)
       = failed ''Network Error''
   \<and> find (\<lambda>r. review_id r = ''r1'') (userReviews (reviews world_reviewed)) \<noteq> None
   \<and> delete_review net_down ''r1'' = Some network_error
   \<and> fst (deleteReview (reviews world_reviewed) (bookings world_reviewed) net_down ''r1''
            world_reviewed) = failed ''Network Error''
   \<and> tourReviews (reviews world_reviewed) ''t1'' = None
   \<and> get_tour_reviews net_down ''t1'' = Inl network_error
   \<and> fst (loadTourReviews (reviews world_reviewed) net_down ''t1'' world_reviewed)
       = failed ''Network Error''
   \<and> get_my_reviews net_down = Inl network_error
   \<and> fst (loadUserReviews net_down world_reviewed) = failed ''Network Error''
   \<and> find (\<lambda>r. review_id r = ''r1'') (userReviews (reviews world_pending)) = None
   \<and> fst (deleteReview (reviews world_pending) (bookings world_pending) net_down ''r1''
            world_pending) = failed ''Review not found in local state''"
proof -
  have msg: "\<And>fallback. reviewsErrorMessage (transformReviewsError network_error) fallback
               = ''Network Error''"
    by (simp add: transformReviewsError_def network_error_def)
  have h: "post_review net_down example_data = Inl network_error"
    "patch_review net_down ''r1'' example_update = Inl network_error"
    "delete_review net_down ''r1'' = Some network_error"
    "get_tour_reviews net_down ''t1'' = Inl network_error"
    "get_my_reviews net_down = Inl network_error"
    by (simp_all add: net_down_def)
  have cached: "find (\<lambda>r. review_id r = ''r1'') (userReviews (reviews world_reviewed)) \<noteq> None"
    by (simp add: example_defs)
  have cold: "tourReviews (reviews world_reviewed) ''t1'' = None"
    by (simp add: example_defs)
  have absent: "find (\<lambda>r. review_id r = ''r1'') (userReviews (reviews world_pending)) = None"
    by (simp add: example_defs)
  have a: "fst (createReview (reviews world_reviewed) (bookings world_reviewed) net_down
                  example_data world_reviewed) = failed ''Network Error''
     \<and> fst (updateReview (reviews world_reviewed) net_down ''r1'' example_update world_reviewed)
         = failed ''Network Error''
     \<and> fst (deleteReview (reviews world_reviewed) (bookings world_reviewed) net_down ''r1''
              world_reviewed) = failed ''Network Error''
     \<and> fst (loadTourReviews (reviews world_reviewed) net_down ''t1'' world_reviewed)
         = failed ''Network Error''
     \<and> fst (loadUserReviews net_down world_reviewed) = failed ''Network Error''"
    using operations_return_results
      [of "reviews world_reviewed" "bookings world_reviewed" net_down example_data
          world_reviewed "''r1''" example_update "''t1''"]
      h cached cold
    by (simp add: msg)
  have b: "fst (deleteReview (reviews world_pending) (bookings world_pending) net_down ''r1''
                  world_pending) = failed ''Review not found in local state''"
    using operations_return_results
      [of "reviews world_pending" "bookings world_pending" net_down example_data
          world_pending "''r1''" example_update "''t1''"]
      absent
    by blast
  show ?thesis using h cached cold absent a b by blast
qed

section \<open>The guards of useBookings\<close>

text \<open>
  C9. Let the hook be rendered from the store of \<open>w\<close>. \<^verbatim>\<open>markBookingAsReviewed\<close> makes a
  remote call only when a booking of the tour with status \<^verbatim>\<open>'pending-review'\<close> is in the
  bookings cache. When the booking found for the tour has that status, the call made is
  the status update of that booking to \<^verbatim>\<open>'reviewed'\<close>. In every other case (no booking
  is found for the tour, or the one found has another status; in particular when the cache
  has no booking of the tour with status \<^verbatim>\<open>'pending-review'\<close>) the result is
  \<^verbatim>\<open>success: false\<close> with an error message and the world is unchanged: no remote call, no
  dispatch, the same bookings cache. The same holds of \<^verbatim>\<open>markBookingAsPendingReview\<close> with
  \<^verbatim>\<open>'reviewed'\<close> and \<^verbatim>\<open>'pending-review'\<close> exchanged.
\<close>

theorem mark_booking_guarded:
  "(remote_calls (snd (markBookingAsReviewed (bookings w) n t w)) \<noteq> remote_calls w
      \<longrightarrow> (\<exists>b \<in> set (userBookings (bookings w)). tourId b = t \<and> status b = ''pending-review''))
   \<and> (\<forall>b. findBookingByTourId (bookings w) t = Some b \<and> status b = ''pending-review''
      \<longrightarrow> remote_calls (snd (markBookingAsReviewed (bookings w) n t w)) =
            remote_calls w @ [call_updateBookingStatus (booking_id b) ''reviewed''])
   \<and> (\<not> (\<exists>b. findBookingByTourId (bookings w) t = Some b \<and> status b = ''pending-review'')
      \<longrightarrow> \<not> success (fst (markBookingAsReviewed (bookings w) n t w))
        \<and> error (fst (markBookingAsReviewed (bookings w) n t w)) \<noteq> None
        \<and> snd (markBookingAsReviewed (bookings w) n t w) = w)
   \<and> (\<not> (\<exists>b \<in> set (userBookings (bookings w)). tourId b = t \<and> status b = ''pending-review'')
      \<longrightarrow> \<not> success (fst (markBookingAsReviewed (bookings w) n t w))
        \<and> error (fst (markBookingAsReviewed (bookings w) n t w)) \<noteq> None
        \<and> snd (markBookingAsReviewed (bookings w) n t w) = w)
   \<and> (remote_calls (snd (markBookingAsPendingReview (bookings w) n t w)) \<noteq> remote_calls w
      \<longrightarrow> (\<exists>b \<in> set (userBookings (bookings w)). tourId b = t \<and> status b = ''reviewed''))
   \<and> (\<forall>b. findBookingByTourId (bookings w) t = Some b \<and> status b = ''reviewed''
      \<longrightarrow> remote_calls (snd (markBookingAsPendingReview (bookings w) n t w)) =
            remote_calls w @ [call_updateBookingStatus (booking_id b) ''pending-review''])
   \<and> (\<not> (\<exists>b. findBookingByTourId (bookings w) t = Some b \<and> status b = ''reviewed'')
      \<longrightarrow> \<not> success (fst (markBookingAsPendingReview (bookings w) n t w))
        \<and> error (fst (markBookingAsPendingReview (bookings w) n t w)) \<noteq> None
        \<and> snd (markBookingAsPendingReview (bookings w) n t w) = w)
   \<and> (\<not> (\<exists>b \<in> set (userBookings (bookings w)). tourId b = t \<and> status b = ''reviewed'')
      \<longrightarrow> \<not> success (fst (markBookingAsPendingReview (bookings w) n t w))
        \<and> error (fst (markBookingAsPendingReview (bookings w) n t w)) \<noteq> None
        \<and> snd (markBookingAsPendingReview (bookings w) n t w) = w)"
proof -
  let ?R = "markBookingAsReviewed (bookings w) n t w"
  let ?P = "markBookingAsPendingReview (bookings w) n t w"
  have r3: "\<not> (\<exists>b. findBookingByTourId (bookings w) t = Some b \<and> status b = ''pending-review'')
      \<longrightarrow> \<not> success (fst ?R) \<and> error (fst ?R) \<noteq> None \<and> snd ?R = w"
    using markBookingAsReviewed_refuses [of "bookings w" t n w] by blast
  have r4: "\<not> (\<exists>b \<in> set (userBookings (bookings w)). tourId b = t \<and> status b = ''pending-review'')
      \<longrightarrow> \<not> success (fst ?R) \<and> error (fst ?R) \<noteq> None \<and> snd ?R = w"
    using r3 found_in_cache [of "bookings w" t] by blast
  have r1: "remote_calls (snd ?R) \<noteq> remote_calls w
      \<longrightarrow> (\<exists>b \<in> set (userBookings (bookings w)). tourId b = t \<and> status b = ''pending-review'')"
    using r4 by metis
  have r2: "\<forall>b. findBookingByTourId (bookings w) t = Some b \<and> status b = ''pending-review''
      \<longrightarrow> remote_calls (snd ?R) =
            remote_calls w @ [call_updateBookingStatus (booking_id b) ''reviewed'']"
    by (simp add: markBookingAsReviewed_updates updateBookingStatus_calls)
  have p3: "\<not> (\<exists>b. findBookingByTourId (bookings w) t = Some b \<and> status b = ''reviewed'')
      \<longrightarrow> \<not> success (fst ?P) \<and> error (fst ?P) \<noteq> None \<and> snd ?P = w"
    using markBookingAsPendingReview_refuses [of "bookings w" t n w] by blast
  have p4: "\<not> (\<exists>b \<in> set (userBookings (bookings w)). tourId b = t \<and> status b = ''reviewed'')
      \<longrightarrow> \<not> success (fst ?P) \<and> error (fst ?P) \<noteq> None \<and> snd ?P = w"
    using p3 found_in_cache [of "bookings w" t] by blast
  have p1: "remote_calls (snd ?P) \<noteq> remote_calls w
      \<longrightarrow> (\<exists>b \<in> set (userBookings (bookings w)). tourId b = t \<and> status b = ''reviewed'')"
    using p4 by metis
  have p2: "\<forall>b. findBookingByTourId (bookings w) t = Some b \<and> status b = ''reviewed''
      \<longrightarrow> remote_calls (snd ?P) =
            remote_calls w @ [call_updateBookingStatus (booking_id b) ''pending-review'']"
    by (simp add: markBookingAsPendingReview_updates updateBookingStatus_calls)
  show ?thesis using r1 r2 r3 r4 p1 p2 p3 p4 by blast
qed

text \<open>
  The theorem at the example: with booking \<^verbatim>\<open>b1\<close> \<^verbatim>\<open>'reviewed'\<close>, \<^verbatim>\<open>markBookingAsReviewed\<close>
  refuses and changes nothing, and \<^verbatim>\<open>markBookingAsPendingReview\<close> sends the update; with
  booking \<^verbatim>\<open>b1\<close> \<^verbatim>\<open>'pending-review'\<close> it is the other way round.
\<close>

theorem mark_booking_guarded_witness:
  "\<not> (\<exists>b \<in> set (userBookings (bookings world_reviewed)).
         tourId b = ''t1'' \<and> status b = ''pending-review'')
   \<and> \<not> success (fst (markBookingAsReviewed (bookings world_reviewed) net_up ''t1'' world_reviewed))
   \<and> error (fst (markBookingAsReviewed (bookings world_reviewed) net_up ''t1'' world_reviewed))
       \<noteq> None
   \<and> snd (markBookingAsReviewed (bookings world_reviewed) net_up ''t1'' world_reviewed)
       = world_reviewed
   \<and> findBookingByTourId (bookings world_reviewed) ''t1'' = Some (example_booking ''reviewed'')
   \<and> status (example_booking ''reviewed'') = ''reviewed''
   \<and> remote_calls (snd (markBookingAsPendingReview (bookings world_reviewed) net_up ''t1''
                          world_reviewed))
       = remote_calls world_reviewed @ [call_updateBookingStatus ''b1'' ''pending-review'']
   \<and> \<not> (\<exists>b \<in> set (userBookings (bookings world_pending)).
           tourId b = ''t1'' \<and> status b = ''reviewed'')
   \<and> \<not> success (fst (markBookingAsPendingReview (bookings world_pending) net_up ''t1''
                        world_pending))
   \<and> error (fst (markBookingAsPendingReview (bookings world_pending) net_up ''t1''
                    world_pending)) \<noteq> None
   \<and> snd (markBookingAsPendingReview (bookings world_pending) net_up ''t1'' world_pending)
       = world_pending
   \<and> findBookingByTourId (bookings world_pending) ''t1'' = Some (example_booking ''pending-review'')
   \<and> status (example_booking ''pending-review'') = ''pending-review''
   \<and> remote_calls (snd (markBookingAsReviewed (bookings world_pending) net_up ''t1''
                          world_pending))
       = remote_calls world_pending @ [call_updateBookingStatus ''b1'' ''reviewed'']"
proof -
  have no_pending: "\<not> (\<exists>b \<in> set (userBookings (bookings world_reviewed)).
         tourId b = ''t1'' \<and> status b = ''pending-review'')"
    by (simp add: example_defs)
  have no_reviewed: "\<not> (\<exists>b \<in> set (userBookings (bookings world_pending)).
         tourId b = ''t1'' \<and> status b = ''reviewed'')"
    by (simp add: example_defs)
  have found_r: "findBookingByTourId (bookings world_reviewed) ''t1''
      = Some (example_booking ''reviewed'')"
    by (simp add: example_defs findBookingByTourId_def)
  have found_p: "findBookingByTourId (bookings world_pending) ''t1''
      = Some (example_booking ''pending-review'')"
    by (simp add: example_defs findBookingByTourId_def)
  have st: "status (example_booking ''reviewed'') = ''reviewed''"
    "status (example_booking ''pending-review'') = ''pending-review''"
    by (simp_all add: example_booking_def)
  have b1: "booking_id (example_booking ''reviewed'') = ''b1''"
    "booking_id (example_booking ''pending-review'') = ''b1''"
    by (simp_all add: example_booking_def)
  note at_reviewed = mark_booking_guarded [of world_reviewed net_up "''t1''"]
  note at_pending = mark_booking_guarded [of world_pending net_up "''t1''"]
  have a: "\<not> success (fst (markBookingAsReviewed (bookings world_reviewed) net_up ''t1''
                             world_reviewed))
     \<and> error (fst (markBookingAsReviewed (bookings world_reviewed) net_up ''t1'' world_reviewed))
         \<noteq> None
     \<and> snd (markBookingAsReviewed (bookings world_reviewed) net_up ''t1'' world_reviewed)
         = world_reviewed"
    using at_reviewed no_pending by blast
  have b: "remote_calls (snd (markBookingAsPendingReview (bookings world_reviewed) net_up ''t1''
                          world_reviewed))
       = remote_calls world_reviewed @ [call_updateBookingStatus ''b1'' ''pending-review'']"
    using at_reviewed found_r st(1) b1(1) by metis
  have c: "\<not> success (fst (markBookingAsPendingReview (bookings world_pending) net_up ''t1''
                        world_pending))
     \<and> error (fst (markBookingAsPendingReview (bookings world_pending) net_up ''t1''
                    world_pending)) \<noteq> None
     \<and> snd (markBookingAsPendingReview (bookings world_pending) net_up ''t1'' world_pending)
         = world_pending"
    using at_pending no_reviewed by blast
  have d: "remote_calls (snd (markBookingAsReviewed (bookings world_pending) net_up ''t1''
                          world_pending))
       = remote_calls world_pending @ [call_updateBookingStatus ''b1'' ''reviewed'']"
    using at_pending found_p st(2) b1(2) by metis
  show ?thesis using no_pending no_reviewed found_r found_p st a b c d by blast
qed

section \<open>Loading the reviews of a tour\<close>

text \<open>
  C10, as the code has it. \<^verbatim>\<open>loadTourReviews\<close> reads the reviews cache through
  \<^verbatim>\<open>reviewsState\<close>, the value the hook selected at render. When that cache holds a
  non-empty list for the tour, \<^verbatim>\<open>loadTourReviews\<close> returns \<^verbatim>\<open>{ success: true }\<close> and the
  world is unchanged: no remote fetch, no dispatch; so calling it again gives the same,
  and so does calling it again from a hook rendered from the store it left. It fetches
  exactly when that cache holds no entry for the tour or an empty list: an entry that is
  present and empty is fetched again by every call.
\<close>

theorem loadTourReviews_warm_idempotent:
  "(\<forall>xs. tourReviews reviewsState t = Some xs \<and> xs \<noteq> [] \<longrightarrow>
       loadTourReviews reviewsState n t w = (ok, w)
     \<and> loadTourReviews reviewsState n t (snd (loadTourReviews reviewsState n t w))
       = loadTourReviews reviewsState n t w)
   \<and> (\<forall>xs. tourReviews (reviews w) t = Some xs \<and> xs \<noteq> [] \<longrightarrow>
       loadTourReviews (reviews w) n t w = (ok, w)
     \<and> loadTourReviews (reviews (snd (loadTourReviews (reviews w) n t w))) n t
         (snd (loadTourReviews (reviews w) n t w))
       = loadTourReviews (reviews w) n t w)
   \<and> remote_calls (snd (loadTourReviews reviewsState n t w))
      = remote_calls w @
        (if tourReviews reviewsState t = None \<or> tourReviews reviewsState t = Some []
         then [call_fetchTourReviews t] else [])"
proof -
  have warm: "loadTourReviews rs n t v = (ok, v)"
    if "tourReviews rs t = Some xs" "xs \<noteq> []" for rs xs v
    using that by (simp add: loadTourReviews_def)
  have a: "\<forall>xs. tourReviews reviewsState t = Some xs \<and> xs \<noteq> [] \<longrightarrow>
       loadTourReviews reviewsState n t w = (ok, w)
     \<and> loadTourReviews reviewsState n t (snd (loadTourReviews reviewsState n t w))
       = loadTourReviews reviewsState n t w"
    using warm by simp
  have b: "\<forall>xs. tourReviews (reviews w) t = Some xs \<and> xs \<noteq> [] \<longrightarrow>
       loadTourReviews (reviews w) n t w = (ok, w)
     \<and> loadTourReviews (reviews (snd (loadTourReviews (reviews w) n t w))) n t
         (snd (loadTourReviews (reviews w) n t w))
       = loadTourReviews (reviews w) n t w"
    using warm by simp
  have c: "remote_calls (snd (loadTourReviews reviewsState n t w))
      = remote_calls w @
        (if tourReviews reviewsState t = None \<or> tourReviews reviewsState t = Some []
         then [call_fetchTourReviews t] else [])"
  proof (cases "tourReviews reviewsState t")
    case None
    then show ?thesis
      by (simp add: loadTourReviews_def reviewsService_fetchTourReviews_def Let_def
            split: sum.splits)
  next
    case (Some xs)
    show ?thesis
    proof (cases "xs = []")
      case True
      with Some show ?thesis
        by (simp add: loadTourReviews_def reviewsService_fetchTourReviews_def Let_def
              split: sum.splits)
    next
      case False
      with Some show ?thesis using warm [of reviewsState xs w] by simp
    qed
  qed
  show ?thesis using a b c by blast
qed

text \<open>
  The theorem at the store where the reviews of tour \<^verbatim>\<open>t1\<close> are loaded: nothing happens;
  and at the store without reviews of the tour: one fetch.
\<close>

theorem loadTourReviews_warm_idempotent_witness:
  "tourReviews (reviews world_warm) ''t1'' = Some [example_review]
   \<and> [example_review] \<noteq> []
   \<and> loadTourReviews (reviews world_warm) net_up ''t1'' world_warm = (ok, world_warm)
   \<and> loadTourReviews (reviews (snd (loadTourReviews (reviews world_warm) net_up ''t1''
                                       world_warm))) net_up ''t1''
         (snd (loadTourReviews (reviews world_warm) net_up ''t1'' world_warm))
       = loadTourReviews (reviews world_warm) net_up ''t1'' world_warm
   \<and> remote_calls (snd (loadTourReviews (reviews world_warm) net_up ''t1'' world_warm)) = []
   \<and> tourReviews (reviews world_pending) ''t1'' = None
   \<and> remote_calls (snd (loadTourReviews (reviews world_pending) net_up ''t1'' world_pending))
       = [call_fetchTourReviews ''t1'']"
proof -
  have loaded: "tourReviews (reviews world_warm) ''t1'' = Some [example_review]"
    by (simp add: example_defs)
  have nonempty: "[example_review] \<noteq> []"
    by simp
  have cold: "tourReviews (reviews world_pending) ''t1'' = None"
    by (simp add: example_defs)
  have before: "remote_calls world_warm = []" "remote_calls world_pending = []"
    by (simp_all add: example_defs)
  note at_warm = loadTourReviews_warm_idempotent [of "reviews world_warm" "''t1''" net_up world_warm]
  note at_cold =
    loadTourReviews_warm_idempotent [of "reviews world_pending" "''t1''" net_up world_pending]
  have a: "loadTourReviews (reviews world_warm) net_up ''t1'' world_warm = (ok, world_warm)
     \<and> loadTourReviews (reviews (snd (loadTourReviews (reviews world_warm) net_up ''t1''
                                       world_warm))) net_up ''t1''
         (snd (loadTourReviews (reviews world_warm) net_up ''t1'' world_warm))
       = loadTourReviews (reviews world_warm) net_up ''t1'' world_warm"
    using at_warm loaded nonempty by blast
  have b: "remote_calls (snd (loadTourReviews (reviews world_warm) net_up ''t1'' world_warm)) = []"
    using at_warm loaded before by simp
  have c: "remote_calls (snd (loadTourReviews (reviews world_pending) net_up ''t1''
                                world_pending)) = [call_fetchTourReviews ''t1'']"
    using at_cold cold before by simp
  show ?thesis using loaded nonempty cold a b c by blast
qed

text \<open>
  C10 as stated fails: a fetch also happens while the entry is there and was never
  cleared. The reviews of tour \<^verbatim>\<open>t1\<close> are loaded and there are none, so the entry is the
  empty list. \<^verbatim>\<open>loadTourReviews\<close>, called from a hook rendered from that store, fetches and
  stores the empty list again; called once more from a hook rendered from the store it
  left, it fetches again. Two fetches, and no \<^verbatim>\<open>clearTourReviews\<close> among the actions
  dispatched.
\<close>

theorem loadTourReviews_refetches_empty_entry:
  "tourReviews (reviews world_empty_entry) ''t1'' = Some []
   \<and> dispatched world_empty_entry = []
   \<and> tourReviews
        (reviews (snd (loadTourReviews (reviews world_empty_entry) net_no_reviews ''t1''
                         world_empty_entry))) ''t1'' = Some []
   \<and> remote_calls
        (snd (loadTourReviews
                (reviews (snd (loadTourReviews (reviews world_empty_entry) net_no_reviews ''t1''
                                 world_empty_entry)))
                net_no_reviews ''t1''
                (snd (loadTourReviews (reviews world_empty_entry) net_no_reviews ''t1''
                        world_empty_entry))))
       = [call_fetchTourReviews ''t1'', call_fetchTourReviews ''t1'']
   \<and> dispatched
        (snd (loadTourReviews
                (reviews (snd (loadTourReviews (reviews world_empty_entry) net_no_reviews ''t1''
                                 world_empty_entry)))
                net_no_reviews ''t1''
                (snd (loadTourReviews (reviews world_empty_entry) net_no_reviews ''t1''
                        world_empty_entry))))
       = [reviews_setLoading True, reviews_clearError, setTourReviews ''t1'' [],
          reviews_setLoading False,
          reviews_setLoading True, reviews_clearError, setTourReviews ''t1'' [],
          reviews_setLoading False]"
  by (simp add: example_defs loadTourReviews_def run_defs)

end
